theory Spec2Isabelle
  imports Complex_Main
begin

section \<open>Floating-point values\<close>

text \<open>
  The program computes with NumPy \<open>float64\<close> values. A value is a real number, a
  negative zero, an infinity or a not-a-number; \<open>Num 0\<close> is the positive zero.
  The special values follow IEEE 754 (round to nearest): the sign of a zero result, the
  operations that give not-a-number, division by zero giving an infinity. On the other
  values the arithmetic is exact: rounding, overflow and underflow are not part of this
  model, and every number the program receives is taken as a float (never a NumPy
  integer array, whose arithmetic wraps around). So the theorems below state what does
  not depend on rounding: which operations are applied and in which order, what raises,
  where the special values appear, how the contact time is chosen among the two roots
  that were computed; and what the computation gives when no operation rounds.
\<close>

datatype fl = Num real | NegZero | PInf | NInf | NaN

fun is_nan :: "fl \<Rightarrow> bool" where
  "is_nan NaN = True"
| "is_nan _ = False"

fun is_inf :: "fl \<Rightarrow> bool" where
  "is_inf PInf = True"
| "is_inf NInf = True"
| "is_inf _ = False"

fun is_zero :: "fl \<Rightarrow> bool" where
  "is_zero (Num r) = (r = 0)"
| "is_zero NegZero = True"
| "is_zero _ = False"

text \<open>A finite value: an ordinary number or a zero of either sign.\<close>

fun is_fin :: "fl \<Rightarrow> bool" where
  "is_fin (Num r) = True"
| "is_fin NegZero = True"
| "is_fin _ = False"

text \<open>The sign bit.\<close>

fun sign_neg :: "fl \<Rightarrow> bool" where
  "sign_neg (Num r) = (r < 0)"
| "sign_neg NegZero = True"
| "sign_neg NInf = True"
| "sign_neg _ = False"

text \<open>The real number a finite value stands for (both zeros stand for 0).\<close>

fun rv :: "fl \<Rightarrow> real" where
  "rv (Num r) = r"
| "rv _ = 0"

definition signed_zero :: "bool \<Rightarrow> fl" where
  "signed_zero s = (if s then NegZero else Num 0)"

definition signed_inf :: "bool \<Rightarrow> fl" where
  "signed_inf s = (if s then NInf else PInf)"

text \<open>The finite result \<open>r\<close>, with sign bit \<open>s\<close> when it is a zero.\<close>

definition mk :: "bool \<Rightarrow> real \<Rightarrow> fl" where
  "mk s r = (if r = 0 then signed_zero s else Num r)"

fun fl_neg :: "fl \<Rightarrow> fl" where
  "fl_neg (Num r) = (if r = 0 then NegZero else Num (- r))"
| "fl_neg NegZero = Num 0"
| "fl_neg PInf = NInf"
| "fl_neg NInf = PInf"
| "fl_neg NaN = NaN"

definition fl_add :: "fl \<Rightarrow> fl \<Rightarrow> fl" where
  "fl_add x y =
     (if is_nan x \<or> is_nan y \<or> (is_inf x \<and> is_inf y \<and> sign_neg x \<noteq> sign_neg y) then NaN
      else if is_inf x then x
      else if is_inf y then y
      else mk (x = NegZero \<and> y = NegZero) (rv x + rv y))"

definition fl_sub :: "fl \<Rightarrow> fl \<Rightarrow> fl" where
  "fl_sub x y = fl_add x (fl_neg y)"

definition fl_mul :: "fl \<Rightarrow> fl \<Rightarrow> fl" where
  "fl_mul x y =
     (if is_nan x \<or> is_nan y \<or> (is_zero x \<and> is_inf y) \<or> (is_inf x \<and> is_zero y) then NaN
      else if is_inf x \<or> is_inf y then signed_inf (sign_neg x \<noteq> sign_neg y)
      else mk (sign_neg x \<noteq> sign_neg y) (rv x * rv y))"

definition fl_div :: "fl \<Rightarrow> fl \<Rightarrow> fl" where
  "fl_div x y =
     (if is_nan x \<or> is_nan y \<or> (is_zero x \<and> is_zero y) \<or> (is_inf x \<and> is_inf y) then NaN
      else if is_inf x \<or> is_zero y then signed_inf (sign_neg x \<noteq> sign_neg y)
      else if is_inf y then signed_zero (sign_neg x \<noteq> sign_neg y)
      else mk (sign_neg x \<noteq> sign_neg y) (rv x / rv y))"

fun fl_sqrt :: "fl \<Rightarrow> fl" where
  "fl_sqrt (Num r) = (if r < 0 then NaN else Num (sqrt r))"
| "fl_sqrt NegZero = NegZero"
| "fl_sqrt PInf = PInf"
| "fl_sqrt NInf = NaN"
| "fl_sqrt NaN = NaN"

text \<open>\<open>x < y\<close> on floats: false when either side is not-a-number; the zeros are equal.\<close>

definition fl_lt :: "fl \<Rightarrow> fl \<Rightarrow> bool" where
  "fl_lt x y =
     (if is_nan x \<or> is_nan y then False
      else if x = NInf then y \<noteq> NInf
      else if y = PInf then x \<noteq> PInf
      else if x = PInf \<or> y = NInf then False
      else rv x < rv y)"

text \<open>\<open>x == y\<close> on floats.\<close>

definition fl_eq :: "fl \<Rightarrow> fl \<Rightarrow> bool" where
  "fl_eq x y =
     (if is_nan x \<or> is_nan y then False
      else if is_inf x \<or> is_inf y then x = y
      else rv x = rv y)"

definition fl_le :: "fl \<Rightarrow> fl \<Rightarrow> bool" where
  "fl_le x y = (fl_lt x y \<or> fl_eq x y)"

text \<open>Not-a-number or an infinity.\<close>

definition is_special :: "fl \<Rightarrow> bool" where
  "is_special x = (is_nan x \<or> is_inf x)"

section \<open>Python and NumPy values\<close>

text \<open>
  What a caller can pass: \<open>None\<close>, a float, a list (or tuple) of floats, a
  one-dimensional array.
\<close>

datatype pyval = PyNone | PyFloat fl | PyList "fl list" | NdArray "fl list"

text \<open>
  What the arithmetic works on: a scalar (a Python float, a \<open>float64\<close> or a
  zero-dimensional array), a one-dimensional array, or the zero-dimensional object array
  that \<open>np.array(None)\<close> gives.
\<close>

datatype val = Scalar fl | Arr "fl list" | NoneArr

text \<open>
  The exceptions: arithmetic on an operand that has none (\<open>TypeError\<close>), shapes that
  do not broadcast (\<open>ValueError\<close>), an index applied to a scalar (\<open>IndexError\<close> on a
  NumPy scalar, \<open>TypeError\<close> on a Python float), an index past the end of an array
  (\<open>IndexError\<close>).
\<close>

datatype error = UnsupportedOperand | BroadcastError | ScalarIndexed | IndexOutOfBounds

definition ebind :: "error + 'a \<Rightarrow> ('a \<Rightarrow> error + 'b) \<Rightarrow> error + 'b" where
  "ebind m f = (case m of Inl e \<Rightarrow> Inl e | Inr v \<Rightarrow> f v)"

text \<open>\<open>np.array(x)\<close>.\<close>

fun np_array :: "pyval \<Rightarrow> val" where
  "np_array PyNone = NoneArr"
| "np_array (PyFloat x) = Scalar x"
| "np_array (PyList xs) = Arr xs"
| "np_array (NdArray xs) = Arr xs"

text \<open>A unary operation, element by element.\<close>

fun lift1 :: "(fl \<Rightarrow> fl) \<Rightarrow> val \<Rightarrow> error + val" where
  "lift1 f (Scalar x) = Inr (Scalar (f x))"
| "lift1 f (Arr xs) = Inr (Arr (map f xs))"
| "lift1 f NoneArr = Inl UnsupportedOperand"

text \<open>
  A binary operation with NumPy's broadcasting: a scalar, or an array of one element,
  is paired with every element of the other operand; two arrays of different lengths,
  neither of length one, do not broadcast.
\<close>

fun lift2 :: "(fl \<Rightarrow> fl \<Rightarrow> fl) \<Rightarrow> val \<Rightarrow> val \<Rightarrow> error + val" where
  "lift2 f (Scalar x) (Scalar y) = Inr (Scalar (f x y))"
| "lift2 f (Scalar x) (Arr ys) = Inr (Arr (map (f x) ys))"
| "lift2 f (Arr xs) (Scalar y) = Inr (Arr (map (\<lambda>x. f x y) xs))"
| "lift2 f (Arr xs) (Arr ys) =
     (if length xs = length ys then Inr (Arr (map2 f xs ys))
      else if length xs = 1 then Inr (Arr (map (f (hd xs)) ys))
      else if length ys = 1 then Inr (Arr (map (\<lambda>x. f x (hd ys)) xs))
      else Inl BroadcastError)"
| "lift2 f _ _ = Inl UnsupportedOperand"

definition np_add :: "val \<Rightarrow> val \<Rightarrow> error + val" where
  "np_add = lift2 fl_add"

definition np_sub :: "val \<Rightarrow> val \<Rightarrow> error + val" where
  "np_sub = lift2 fl_sub"

definition np_mul :: "val \<Rightarrow> val \<Rightarrow> error + val" where
  "np_mul = lift2 fl_mul"

definition np_div :: "val \<Rightarrow> val \<Rightarrow> error + val" where
  "np_div = lift2 fl_div"

definition np_neg :: "val \<Rightarrow> error + val" where
  "np_neg = lift1 fl_neg"

definition np_sqrt :: "val \<Rightarrow> error + val" where
  "np_sqrt = lift1 fl_sqrt"

text \<open>
  \<open>x ** 2\<close>, as NumPy computes it on its scalars and arrays. (On a plain Python float
  whose square overflows, Python raises \<open>OverflowError\<close>; overflow is not part of this
  model, and the theorems on scalars speak of NumPy scalars.)
\<close>

definition np_square :: "val \<Rightarrow> error + val" where
  "np_square = lift1 (\<lambda>x. fl_mul x x)"

text \<open>\<open>v[i]\<close> for an index \<open>i \<ge> 0\<close>.\<close>

fun getitem :: "val \<Rightarrow> nat \<Rightarrow> error + fl" where
  "getitem (Arr xs) i = (if i < length xs then Inr (xs ! i) else Inl IndexOutOfBounds)"
| "getitem _ i = Inl ScalarIndexed"

text \<open>\<open>k * x\<close> for a Python float \<open>k\<close> and an object \<open>x\<close> as the caller passed it.\<close>

fun float_times :: "fl \<Rightarrow> pyval \<Rightarrow> error + val" where
  "float_times k (PyFloat x) = Inr (Scalar (fl_mul k x))"
| "float_times k (NdArray xs) = Inr (Arr (map (fl_mul k) xs))"
| "float_times k (PyList xs) = Inl UnsupportedOperand"
| "float_times k PyNone = Inl UnsupportedOperand"

section \<open>The class Object\<close>

record object =
  obj_pos :: val
  obj_vel :: val
  obj_collision_condition :: val
  obj_g :: pyval

text \<open>The default of the parameter \<open>g\<close>: \<open>np.array([0, 0, -9.81])\<close>.\<close>

definition default_g :: pyval where
  "default_g = NdArray [Num 0, Num 0, Num (- (981 / 100))]"

text \<open>\<open>Object.__init__\<close>.\<close>

definition Object :: "pyval \<Rightarrow> pyval \<Rightarrow> pyval \<Rightarrow> pyval \<Rightarrow> object" where
  "Object pos vel collision_condition g =
     \<lparr>obj_pos = np_array pos, obj_vel = np_array vel,
      obj_collision_condition = np_array collision_condition, obj_g = g\<rparr>"

definition get_a :: "object \<Rightarrow> error + val" where
  "get_a self = float_times (Num (1 / 2)) (obj_g self)"

definition get_b :: "object \<Rightarrow> error + val" where
  "get_b self = Inr (obj_vel self)"

definition get_c :: "object \<Rightarrow> error + val" where
  "get_c self = np_sub (obj_pos self) (obj_collision_condition self)"

definition get_eq :: "object \<Rightarrow> error + (val \<times> val \<times> val)" where
  "get_eq self =
     ebind (get_a self) (\<lambda>a.
     ebind (get_b self) (\<lambda>b.
     ebind (get_c self) (\<lambda>c. Inr (a, b, c))))"

definition get_eq_z :: "object \<Rightarrow> error + (fl \<times> fl \<times> fl)" where
  "get_eq_z self =
     ebind (get_a self) (\<lambda>a. ebind (getitem a 2) (\<lambda>az.
     ebind (get_b self) (\<lambda>b. ebind (getitem b 2) (\<lambda>bz.
     ebind (get_c self) (\<lambda>c. ebind (getitem c 2) (\<lambda>cz. Inr (az, bz, cz)))))))"

section \<open>The class SecondOrderEq\<close>

record second_order_eq =
  eq_a :: val
  eq_b :: val
  eq_c :: val

text \<open>\<open>SecondOrderEq.__init__\<close>.\<close>

definition SecondOrderEq :: "val \<Rightarrow> val \<Rightarrow> val \<Rightarrow> second_order_eq" where
  "SecondOrderEq a b c = \<lparr>eq_a = a, eq_b = b, eq_c = c\<rparr>"

text \<open>\<open>self.b**2 - 4 * self.a * self.c\<close>.\<close>

definition discriminant :: "second_order_eq \<Rightarrow> error + val" where
  "discriminant self =
     ebind (np_square (eq_b self)) (\<lambda>b2.
     ebind (np_mul (Scalar (Num 4)) (eq_a self)) (\<lambda>a4.
     ebind (np_mul a4 (eq_c self)) (\<lambda>ac4.
     np_sub b2 ac4)))"

text \<open>One root: \<open>(-self.b - np.sqrt(self.discriminant())) / (2 * self.a)\<close>, or with \<open>+\<close>.\<close>

definition root_with :: "(val \<Rightarrow> val \<Rightarrow> error + val) \<Rightarrow> second_order_eq \<Rightarrow> error + val" where
  "root_with pm self =
     ebind (np_neg (eq_b self)) (\<lambda>nb.
     ebind (discriminant self) (\<lambda>d.
     ebind (np_sqrt d) (\<lambda>s.
     ebind (pm nb s) (\<lambda>num.
     ebind (np_mul (Scalar (Num 2)) (eq_a self)) (\<lambda>den.
     np_div num den)))))"

definition roots :: "second_order_eq \<Rightarrow> error + (val \<times> val)" where
  "roots self =
     ebind (root_with np_sub self) (\<lambda>r1.
     ebind (root_with np_add self) (\<lambda>r2.
     Inr (r1, r2)))"

definition get_time_contact_ground :: "second_order_eq \<Rightarrow> error + fl" where
  "get_time_contact_ground self =
     ebind (roots self) (\<lambda>(r1, r2).
     ebind (getitem r1 2) (\<lambda>r1z.
     ebind (getitem r2 2) (\<lambda>r2z.
     Inr (if fl_lt r1z (Num 0) then r2z else r1z))))"

definition get_distance_at_contact_ground :: "second_order_eq \<Rightarrow> error + val" where
  "get_distance_at_contact_ground self =
     ebind (get_time_contact_ground self) (\<lambda>t.
     ebind (np_square (Scalar t)) (\<lambda>t2.
     ebind (np_mul (eq_a self) t2) (\<lambda>at2.
     ebind (np_mul (eq_b self) (Scalar t)) (\<lambda>bt.
     ebind (np_add at2 bt) (\<lambda>s.
     np_add s (eq_c self))))))"

section \<open>The formulas, element by element\<close>

text \<open>
  The discriminant \<open>b\<^sup>2 - 4ac\<close> and the two roots \<open>(-b - \<surd>d) / (2a)\<close> and
  \<open>(-b + \<surd>d) / (2a)\<close> of one axis, in float arithmetic; the root that the contact time
  selects; the polynomial \<open>a t\<^sup>2 + b t + c\<close> at a time \<open>t\<close>.
\<close>

definition spec_discriminant :: "fl \<Rightarrow> fl \<Rightarrow> fl \<Rightarrow> fl" where
  "spec_discriminant a b c = fl_sub (fl_mul b b) (fl_mul (fl_mul (Num 4) a) c)"

definition spec_root1 :: "fl \<Rightarrow> fl \<Rightarrow> fl \<Rightarrow> fl" where
  "spec_root1 a b c =
     fl_div (fl_sub (fl_neg b) (fl_sqrt (spec_discriminant a b c))) (fl_mul (Num 2) a)"

definition spec_root2 :: "fl \<Rightarrow> fl \<Rightarrow> fl \<Rightarrow> fl" where
  "spec_root2 a b c =
     fl_div (fl_add (fl_neg b) (fl_sqrt (spec_discriminant a b c))) (fl_mul (Num 2) a)"

definition map3 :: "('a \<Rightarrow> 'b \<Rightarrow> 'c \<Rightarrow> 'd) \<Rightarrow> 'a list \<Rightarrow> 'b list \<Rightarrow> 'c list \<Rightarrow> 'd list" where
  "map3 f xs ys zs = map (\<lambda>(x, y, z). f x y z) (zip xs (zip ys zs))"

definition spec_time :: "fl \<Rightarrow> fl \<Rightarrow> fl \<Rightarrow> fl" where
  "spec_time a b c =
     (if fl_lt (spec_root1 a b c) (Num 0) then spec_root2 a b c else spec_root1 a b c)"

definition spec_eval :: "fl \<Rightarrow> fl \<Rightarrow> fl \<Rightarrow> fl \<Rightarrow> fl" where
  "spec_eval t a b c = fl_add (fl_add (fl_mul a (fl_mul t t)) (fl_mul b t)) c"

section \<open>Computations that do not round\<close>

text \<open>
  A real number is a finite \<open>float64\<close> value when it is \<open>m\<close> times a power of two with
  an integer \<open>\<bar>m\<bar> < 2\<^sup>5\<^sup>3\<close> and an exponent from \<open>-1074\<close> to \<open>971\<close>. An operation whose
  exact result is such a number returns it unrounded. A result that is moreover below
  \<open>2\<^sup>6\<^sup>3\<close> in magnitude is also what 64-bit integer arithmetic gives without
  wrap-around, when the operands are arrays of integers.
\<close>

definition representable :: "real \<Rightarrow> bool" where
  "representable r = (\<exists>m k. \<bar>m\<bar> < (2::int) ^ 53 \<and> k \<le> (2045::nat) \<and>
     r = real_of_int m * 2 ^ k / 2 ^ 1074)"

definition exact :: "real \<Rightarrow> bool" where
  "exact r = (representable r \<and> \<bar>r\<bar> < 2 ^ 63)"

text \<open>
  The numbers that the vertical axis goes through, from the vertical components \<open>P\<close> of
  the position, \<open>Q\<close> of the collision boundary, \<open>V\<close> of the velocity and \<open>G\<close> of the
  gravity to the value at the time of contact: the operands, and the exact result of
  every operation before the last addition.
\<close>

definition contact_values :: "real \<Rightarrow> real \<Rightarrow> real \<Rightarrow> real \<Rightarrow> real list" where
  "contact_values P Q V G =
     (let A = G / 2; C = P - Q; D = V * V - 4 * A * C; s = sqrt D;
          r1 = (- V - s) / (2 * A); r2 = (- V + s) / (2 * A);
          T = (if r1 < 0 then r2 else r1)
      in [P, Q, V, G, A, C, V * V, 4 * A, 4 * A * C, D, s, - V - s, - V + s, 2 * A, r1, r2,
          T * T, A * (T * T), V * T, A * (T * T) + V * T])"

section \<open>Float arithmetic on finite values\<close>

lemma fin_neg: "is_fin x \<Longrightarrow> is_fin (fl_neg x) \<and> rv (fl_neg x) = - rv x"
  by (cases x) auto

lemma fin_mk: "is_fin (mk s r) \<and> rv (mk s r) = r"
  by (simp add: mk_def signed_zero_def)

lemma fin_add: "is_fin x \<Longrightarrow> is_fin y \<Longrightarrow> is_fin (fl_add x y) \<and> rv (fl_add x y) = rv x + rv y"
  by (cases x; cases y) (simp_all add: fl_add_def fin_mk)

lemma fin_sub: "is_fin x \<Longrightarrow> is_fin y \<Longrightarrow> is_fin (fl_sub x y) \<and> rv (fl_sub x y) = rv x - rv y"
  by (simp add: fl_sub_def fin_add fin_neg)

lemma fin_mul: "is_fin x \<Longrightarrow> is_fin y \<Longrightarrow> is_fin (fl_mul x y) \<and> rv (fl_mul x y) = rv x * rv y"
  by (cases x; cases y) (simp_all add: fl_mul_def fin_mk)

lemma fin_div: "is_fin x \<Longrightarrow> is_fin y \<Longrightarrow> rv y \<noteq> 0 \<Longrightarrow> is_fin (fl_div x y) \<and> rv (fl_div x y) = rv x / rv y"
  by (cases x; cases y) (simp_all add: fl_div_def fin_mk)

lemma fin_sqrt: "is_fin x \<Longrightarrow> 0 \<le> rv x \<Longrightarrow> is_fin (fl_sqrt x) \<and> rv (fl_sqrt x) = sqrt (rv x)"
  by (cases x) auto

lemma fin_lt: "is_fin x \<Longrightarrow> is_fin y \<Longrightarrow> fl_lt x y = (rv x < rv y)"
  by (cases x; cases y) (simp_all add: fl_lt_def)

lemma fin_eq: "is_fin x \<Longrightarrow> is_fin y \<Longrightarrow> fl_eq x y = (rv x = rv y)"
  by (cases x; cases y) (simp_all add: fl_eq_def)

lemma fin_le: "is_fin x \<Longrightarrow> is_fin y \<Longrightarrow> fl_le x y = (rv x \<le> rv y)"
  by (auto simp: fl_le_def fin_lt fin_eq)

section \<open>The solver on scalars and on arrays\<close>

lemma length_map3 [simp]:
  "length (map3 f xs ys zs) = min (length xs) (min (length ys) (length zs))"
  by (simp add: map3_def)

lemma nth_map3 [simp]:
  "i < length xs \<Longrightarrow> i < length ys \<Longrightarrow> i < length zs \<Longrightarrow>
   map3 f xs ys zs ! i = f (xs ! i) (ys ! i) (zs ! i)"
  by (simp add: map3_def)

lemma SecondOrderEq_sel [simp]:
  "eq_a (SecondOrderEq a b c) = a"
  "eq_b (SecondOrderEq a b c) = b"
  "eq_c (SecondOrderEq a b c) = c"
  by (simp_all add: SecondOrderEq_def)

lemmas np_defs = np_square_def np_mul_def np_sub_def np_add_def np_div_def np_neg_def np_sqrt_def

lemma discriminant_Scalar:
  "discriminant (SecondOrderEq (Scalar a) (Scalar b) (Scalar c)) =
     Inr (Scalar (spec_discriminant a b c))"
  by (simp add: discriminant_def ebind_def np_defs spec_discriminant_def)

lemma discriminant_Arr:
  assumes "length bs = length as" "length cs = length as"
  shows "discriminant (SecondOrderEq (Arr as) (Arr bs) (Arr cs)) =
     Inr (Arr (map3 spec_discriminant as bs cs))"
  using assms
  by (auto simp: discriminant_def ebind_def np_defs spec_discriminant_def intro!: nth_equalityI)

lemma roots_Scalar:
  "roots (SecondOrderEq (Scalar a) (Scalar b) (Scalar c)) =
     Inr (Scalar (spec_root1 a b c), Scalar (spec_root2 a b c))"
  by (simp add: roots_def root_with_def discriminant_Scalar ebind_def np_defs
      spec_root1_def spec_root2_def)

lemma roots_Arr:
  assumes "length bs = length as" "length cs = length as"
  shows "roots (SecondOrderEq (Arr as) (Arr bs) (Arr cs)) =
     Inr (Arr (map3 spec_root1 as bs cs), Arr (map3 spec_root2 as bs cs))"
  using assms
  by (auto simp: roots_def root_with_def discriminant_Arr ebind_def np_defs
      spec_root1_def spec_root2_def intro!: nth_equalityI)

lemma time_Arr:
  assumes "length bs = length as" "length cs = length as" "2 < length as"
  shows "get_time_contact_ground (SecondOrderEq (Arr as) (Arr bs) (Arr cs)) =
     Inr (spec_time (as ! 2) (bs ! 2) (cs ! 2))"
  using assms
  by (simp add: get_time_contact_ground_def roots_Arr ebind_def spec_time_def)

lemma time_Scalar:
  "get_time_contact_ground (SecondOrderEq (Scalar a) (Scalar b) (Scalar c)) = Inl ScalarIndexed"
  by (simp add: get_time_contact_ground_def roots_Scalar ebind_def)

lemma distance_Arr:
  assumes "length bs = length as" "length cs = length as" "2 < length as"
  shows "get_distance_at_contact_ground (SecondOrderEq (Arr as) (Arr bs) (Arr cs)) =
     Inr (Arr (map3 (spec_eval (spec_time (as ! 2) (bs ! 2) (cs ! 2))) as bs cs))"
  using assms
  by (auto simp: get_distance_at_contact_ground_def time_Arr ebind_def np_defs spec_eval_def
      intro!: nth_equalityI)

section \<open>When a root is finite\<close>

lemma is_zero_iff: "is_zero x \<longleftrightarrow> is_fin x \<and> rv x = 0"
  by (cases x) auto

lemma fin_not_special: "is_fin x \<longleftrightarrow> \<not> is_special x"
  by (cases x) (auto simp: is_special_def)

lemma neg_fin_iff: "is_fin (fl_neg x) \<longleftrightarrow> is_fin x"
  by (cases x) auto

lemma add_fin_iff: "is_fin (fl_add x y) \<longleftrightarrow> is_fin x \<and> is_fin y"
  by (cases x; cases y) (simp_all add: fl_add_def fin_mk)

lemma sub_fin_iff: "is_fin (fl_sub x y) \<longleftrightarrow> is_fin x \<and> is_fin y"
  by (simp add: fl_sub_def add_fin_iff neg_fin_iff)

lemma mul_fin_iff: "is_fin (fl_mul x y) \<longleftrightarrow> is_fin x \<and> is_fin y"
  by (cases x; cases y) (simp_all add: fl_mul_def fin_mk signed_inf_def)

lemma div_fin_iff:
  "is_fin (fl_div x y) \<longleftrightarrow> is_fin x \<and> (is_inf y \<or> (is_fin y \<and> rv y \<noteq> 0))"
  by (cases x; cases y) (simp_all add: fl_div_def fin_mk signed_inf_def signed_zero_def)

lemma sqrt_fin_iff: "is_fin (fl_sqrt x) \<longleftrightarrow> is_fin x \<and> 0 \<le> rv x"
  by (cases x) auto

lemma fin_not_inf: "is_fin x \<Longrightarrow> \<not> is_inf x"
  by (cases x) auto

lemma fin_mul_not_inf: "is_fin x \<Longrightarrow> is_fin y \<Longrightarrow> \<not> is_inf (fl_mul x y)"
  by (simp add: fin_not_inf mul_fin_iff)

lemma discriminant_fin_iff:
  "is_fin (spec_discriminant a b c) \<longleftrightarrow> is_fin a \<and> is_fin b \<and> is_fin c"
  by (auto simp: spec_discriminant_def sub_fin_iff mul_fin_iff)

lemma rv_discriminant:
  "is_fin a \<Longrightarrow> is_fin b \<Longrightarrow> is_fin c \<Longrightarrow>
   rv (spec_discriminant a b c) = rv b * rv b - 4 * rv a * rv c"
  by (simp add: spec_discriminant_def fin_sub fin_mul)

lemma root1_fin_iff:
  "is_fin (spec_root1 a b c) \<longleftrightarrow>
     is_fin a \<and> is_fin b \<and> is_fin c \<and> rv a \<noteq> 0 \<and> 0 \<le> rv b * rv b - 4 * rv a * rv c"
  by (auto simp: spec_root1_def div_fin_iff sub_fin_iff neg_fin_iff sqrt_fin_iff mul_fin_iff
      discriminant_fin_iff rv_discriminant fin_mul fin_mul_not_inf)

lemma root2_fin_iff:
  "is_fin (spec_root2 a b c) \<longleftrightarrow>
     is_fin a \<and> is_fin b \<and> is_fin c \<and> rv a \<noteq> 0 \<and> 0 \<le> rv b * rv b - 4 * rv a * rv c"
  by (auto simp: spec_root2_def div_fin_iff add_fin_iff neg_fin_iff sqrt_fin_iff mul_fin_iff
      discriminant_fin_iff rv_discriminant fin_mul fin_mul_not_inf)

lemma rv_root1:
  assumes "is_fin a" "is_fin b" "is_fin c" "rv a \<noteq> 0" "0 \<le> rv b * rv b - 4 * rv a * rv c"
  shows "rv (spec_root1 a b c) = (- rv b - sqrt (rv b * rv b - 4 * rv a * rv c)) / (2 * rv a)"
  using assms
  by (simp add: spec_root1_def fin_div fin_sub fin_neg fin_sqrt fin_mul discriminant_fin_iff
      rv_discriminant)

lemma rv_root2:
  assumes "is_fin a" "is_fin b" "is_fin c" "rv a \<noteq> 0" "0 \<le> rv b * rv b - 4 * rv a * rv c"
  shows "rv (spec_root2 a b c) = (- rv b + sqrt (rv b * rv b - 4 * rv a * rv c)) / (2 * rv a)"
  using assms
  by (simp add: spec_root2_def fin_div fin_add fin_neg fin_sqrt fin_mul discriminant_fin_iff
      rv_discriminant)

text \<open>The definitions that evaluate float arithmetic on given numbers.\<close>

lemmas fl_eval = spec_discriminant_def spec_root1_def spec_root2_def spec_time_def spec_eval_def
  fl_add_def fl_sub_def fl_mul_def fl_div_def fl_lt_def fl_eq_def fl_le_def mk_def signed_zero_def
  signed_inf_def map3_def

lemma default_a: "get_a (Object pos vel cc default_g) = Inr (Arr [Num 0, Num 0, Num (- (981 / 200))])"
  by (simp add: get_a_def Object_def default_g_def fl_mul_def mk_def signed_zero_def)

lemma sqrt_36: "sqrt 36 = 6"
  by (rule real_sqrt_unique) simp_all

section \<open>The time of contact\<close>

text \<open>
  Claim C7. On three coefficient arrays of one length, at least 3, \<open>roots()\<close> returns
  two arrays \<open>r1\<close> and \<open>r2\<close> of that length, and \<open>get_time_contact_ground()\<close> returns
  \<open>r2[2]\<close> when \<open>r1[2] < 0\<close> and \<open>r1[2]\<close> otherwise (so also when \<open>r1[2]\<close> is
  not-a-number or a zero).
\<close>

theorem time_selects_root:
  assumes "length bs = length as" and "length cs = length as" and "2 < length as"
  shows "\<exists>r1 r2. roots (SecondOrderEq (Arr as) (Arr bs) (Arr cs)) = Inr (Arr r1, Arr r2) \<and>
           length r1 = length as \<and> length r2 = length as \<and>
           get_time_contact_ground (SecondOrderEq (Arr as) (Arr bs) (Arr cs)) =
             Inr (if fl_lt (r1 ! 2) (Num 0) then r2 ! 2 else r1 ! 2)"
  using assms by (simp add: roots_Arr time_Arr spec_time_def)

theorem time_selects_root_witness:
  "length [Num 0, Num 0, Num 3] = length [Num 0, Num 0, Num (- 1)] \<and>
   length [Num 0, Num 0, Num (- 2)] = length [Num 0, Num 0, Num (- 1)] \<and>
   2 < length [Num 0, Num 0, Num (- 1)] \<and>
   roots (SecondOrderEq (Arr [Num 0, Num 0, Num (- 1)]) (Arr [Num 0, Num 0, Num 3])
     (Arr [Num 0, Num 0, Num (- 2)])) = Inr (Arr [NaN, NaN, Num 2], Arr [NaN, NaN, Num 1]) \<and>
   get_time_contact_ground (SecondOrderEq (Arr [Num 0, Num 0, Num (- 1)])
     (Arr [Num 0, Num 0, Num 3]) (Arr [Num 0, Num 0, Num (- 2)])) = Inr (Num 2)"
proof -
  let ?e = "SecondOrderEq (Arr [Num 0, Num 0, Num (- 1)]) (Arr [Num 0, Num 0, Num 3])
     (Arr [Num 0, Num 0, Num (- 2)])"
  have R: "roots ?e = Inr (Arr [NaN, NaN, Num 2], Arr [NaN, NaN, Num 1])"
    by (simp add: roots_Arr fl_eval)
  obtain r1 r2 where "roots ?e = Inr (Arr r1, Arr r2)"
    and T: "get_time_contact_ground ?e = Inr (if fl_lt (r1 ! 2) (Num 0) then r2 ! 2 else r1 ! 2)"
    using time_selects_root [of "[Num 0, Num 0, Num 3]" "[Num 0, Num 0, Num (- 1)]"
      "[Num 0, Num 0, Num (- 2)]"] by auto
  with R have "r1 = [NaN, NaN, Num 2]" "r2 = [NaN, NaN, Num 1]" by simp_all
  with T have "get_time_contact_ground ?e = Inr (Num 2)" by (simp add: fl_lt_def)
  with R show ?thesis by simp
qed

text \<open>
  Claim C4, as stated, fails: on the three scalars that \<open>get_eq_z()\<close> gives for an object
  dropped from height 10 under the default gravity, the roots are scalars, and
  \<open>get_time_contact_ground()\<close> raises when it takes their component 2.
\<close>

theorem time_on_vertical_equation_fails:
  "get_eq_z (Object (PyList [Num 0, Num 0, Num 10]) (PyList [Num 0, Num 0, Num 0])
      (PyList [Num 0, Num 0, Num 0]) default_g) = Inr (Num (- (981 / 200)), Num 0, Num 10) \<and>
   get_time_contact_ground
     (SecondOrderEq (Scalar (Num (- (981 / 200)))) (Scalar (Num 0)) (Scalar (Num 10))) =
       Inl ScalarIndexed"
  by (simp add: time_Scalar get_eq_z_def ebind_def default_a)
     (simp add: get_b_def get_c_def Object_def np_sub_def fl_sub_def fl_add_def mk_def signed_zero_def)

text \<open>
  Claim C4, amended. \<open>get_time_contact_ground()\<close> raises on every triple of scalars; on
  three coefficient arrays of one length, at least 3 (as \<open>get_eq()\<close> gives), it returns
  a scalar time and raises nothing.
\<close>

theorem time_defined_on_vectors_only:
  "get_time_contact_ground (SecondOrderEq (Scalar a) (Scalar b) (Scalar c)) = Inl ScalarIndexed \<and>
   (length bs = length as \<and> length cs = length as \<and> 2 < length as \<longrightarrow>
      (\<exists>t. get_time_contact_ground (SecondOrderEq (Arr as) (Arr bs) (Arr cs)) = Inr t))"
  by (simp add: time_Scalar time_Arr)

theorem time_defined_on_vectors_only_witness:
  "length [Num 0, Num 0, Num 0] = length [Num 0, Num 0, Num (- 1)] \<and>
   length [Num 0, Num 0, Num 9] = length [Num 0, Num 0, Num (- 1)] \<and>
   2 < length [Num 0, Num 0, Num (- 1)] \<and>
   (\<exists>t. get_time_contact_ground (SecondOrderEq (Arr [Num 0, Num 0, Num (- 1)])
      (Arr [Num 0, Num 0, Num 0]) (Arr [Num 0, Num 0, Num 9])) = Inr t)"
  using time_defined_on_vectors_only [of _ _ _ "[Num 0, Num 0, Num 0]"
      "[Num 0, Num 0, Num (- 1)]" "[Num 0, Num 0, Num 9]"]
  by simp

section \<open>The coefficients of an object\<close>

lemma Object_sel [simp]:
  "obj_pos (Object pos vel cc g) = np_array pos"
  "obj_vel (Object pos vel cc g) = np_array vel"
  "obj_collision_condition (Object pos vel cc g) = np_array cc"
  "obj_g (Object pos vel cc g) = g"
  by (simp_all add: Object_def)

lemma get_a_NdArray:
  "get_a (Object pos vel cc (NdArray gs)) = Inr (Arr (map (fl_mul (Num (1 / 2))) gs))"
  by (simp add: get_a_def)

lemma get_b_Arr: "np_array vel = Arr vs \<Longrightarrow> get_b (Object pos vel cc g) = Inr (Arr vs)"
  by (simp add: get_b_def)

lemma get_c_Arr:
  "np_array pos = Arr ps \<Longrightarrow> np_array cc = Arr bs \<Longrightarrow> length ps = length bs \<Longrightarrow>
   get_c (Object pos vel cc g) = Inr (Arr (map2 fl_sub ps bs))"
  by (simp add: get_c_def np_sub_def)

lemma get_eq_Arr:
  assumes "np_array pos = Arr ps" "np_array vel = Arr vs" "np_array cc = Arr bs"
    and "length ps = length bs"
  shows "get_eq (Object pos vel cc (NdArray gs)) =
     Inr (Arr (map (fl_mul (Num (1 / 2))) gs), Arr vs, Arr (map2 fl_sub ps bs))"
  using assms by (simp add: get_eq_def ebind_def get_a_NdArray get_b_Arr get_c_Arr)

lemma get_eq_z_Arr:
  assumes "np_array pos = Arr ps" "np_array vel = Arr vs" "np_array cc = Arr bs"
    and "length ps = length bs" "2 < length bs" "2 < length vs" "2 < length gs"
  shows "get_eq_z (Object pos vel cc (NdArray gs)) =
     Inr (fl_mul (Num (1 / 2)) (gs ! 2), vs ! 2, fl_sub (ps ! 2) (bs ! 2))"
  using assms by (simp add: get_eq_z_def ebind_def get_a_NdArray get_b_Arr get_c_Arr)

text \<open>
  Claim C9. For an object built from a position, a velocity and a collision boundary
  that \<open>np.array\<close> turns into arrays of three components, and a gravity that is an
  array of three components: \<open>get_a()\<close> is \<open>0.5 * g\<close>, \<open>get_b()\<close> is the velocity,
  \<open>get_c()\<close> is the position minus the boundary, each an array of three components
  computed element by element in float arithmetic, and \<open>get_eq()\<close> is the triple of
  the three.
\<close>

theorem coefficients_structure:
  assumes "np_array pos = Arr ps" and "np_array vel = Arr vs" and "np_array cc = Arr bs"
    and "length ps = 3" and "length vs = 3" and "length bs = 3" and "length gs = 3"
  shows "get_a (Object pos vel cc (NdArray gs)) = Inr (Arr (map (fl_mul (Num (1 / 2))) gs)) \<and>
    get_b (Object pos vel cc (NdArray gs)) = Inr (Arr vs) \<and>
    get_c (Object pos vel cc (NdArray gs)) = Inr (Arr (map2 fl_sub ps bs)) \<and>
    get_eq (Object pos vel cc (NdArray gs)) =
      Inr (Arr (map (fl_mul (Num (1 / 2))) gs), Arr vs, Arr (map2 fl_sub ps bs)) \<and>
    length (map (fl_mul (Num (1 / 2))) gs) = 3 \<and> length (map2 fl_sub ps bs) = 3"
  using assms by (simp add: get_a_NdArray get_b_Arr get_c_Arr get_eq_Arr)

theorem coefficients_structure_witness:
  "np_array (PyList [Num 0, Num 0, Num 10]) = Arr [Num 0, Num 0, Num 10] \<and>
   np_array (PyList [Num 0, Num 0, Num 0]) = Arr [Num 0, Num 0, Num 0] \<and>
   np_array (NdArray [Num 0, Num 0, Num 1]) = Arr [Num 0, Num 0, Num 1] \<and>
   length [Num 0, Num 0, Num 10] = 3 \<and> length [Num 0, Num 0, Num 0] = 3 \<and>
   length [Num 0, Num 0, Num 1] = 3 \<and> length [Num 0, Num 0, Num (- 2)] = 3 \<and>
   get_eq (Object (PyList [Num 0, Num 0, Num 10]) (PyList [Num 0, Num 0, Num 0])
      (NdArray [Num 0, Num 0, Num 1]) (NdArray [Num 0, Num 0, Num (- 2)])) =
     Inr (Arr [Num 0, Num 0, Num (- 1)], Arr [Num 0, Num 0, Num 0], Arr [Num 0, Num 0, Num 9])"
  using coefficients_structure [of "PyList [Num 0, Num 0, Num 10]" "[Num 0, Num 0, Num 10]"
      "PyList [Num 0, Num 0, Num 0]" "[Num 0, Num 0, Num 0]"
      "NdArray [Num 0, Num 0, Num 1]" "[Num 0, Num 0, Num 1]" "[Num 0, Num 0, Num (- 2)]"]
  by (simp add: fl_eval)

text \<open>
  Claim C10. The constructor stores \<open>np.array\<close> of the position, the velocity and the
  boundary, and the gravity as it was passed. With the default gravity \<open>get_a()\<close> is
  \<open>(0, 0, -4.905)\<close>, and every accessor returns when the three other arguments are
  three-component vectors. With a gravity that a float cannot multiply (\<open>None\<close>, or a
  list) the object is built all the same, and \<open>get_a()\<close>, \<open>get_eq()\<close> and
  \<open>get_eq_z()\<close> raise.
\<close>

theorem gravity_stored_as_passed:
  "obj_pos (Object pos vel cc g) = np_array pos \<and>
   obj_vel (Object pos vel cc g) = np_array vel \<and>
   obj_collision_condition (Object pos vel cc g) = np_array cc \<and>
   obj_g (Object pos vel cc g) = g \<and>
   get_a (Object pos vel cc default_g) = Inr (Arr [Num 0, Num 0, Num (- (4905 / 1000))]) \<and>
   (np_array pos = Arr ps \<and> np_array vel = Arr vs \<and> np_array cc = Arr bs \<and>
    length ps = 3 \<and> length vs = 3 \<and> length bs = 3 \<longrightarrow>
      get_b (Object pos vel cc default_g) = Inr (Arr vs) \<and>
      get_c (Object pos vel cc default_g) = Inr (Arr (map2 fl_sub ps bs)) \<and>
      get_eq (Object pos vel cc default_g) =
        Inr (Arr [Num 0, Num 0, Num (- (4905 / 1000))], Arr vs, Arr (map2 fl_sub ps bs)) \<and>
      get_eq_z (Object pos vel cc default_g) =
        Inr (Num (- (4905 / 1000)), vs ! 2, fl_sub (ps ! 2) (bs ! 2))) \<and>
   (g = PyNone \<or> g = PyList xs \<longrightarrow>
      get_a (Object pos vel cc g) = Inl UnsupportedOperand \<and>
      get_eq (Object pos vel cc g) = Inl UnsupportedOperand \<and>
      get_eq_z (Object pos vel cc g) = Inl UnsupportedOperand)"
proof -
  have A: "get_a (Object pos vel cc default_g) = Inr (Arr [Num 0, Num 0, Num (- (4905 / 1000))])"
    by (simp add: default_a)
  have B: "get_b (Object pos vel cc default_g) = Inr (Arr vs) \<and>
      get_c (Object pos vel cc default_g) = Inr (Arr (map2 fl_sub ps bs)) \<and>
      get_eq (Object pos vel cc default_g) =
        Inr (Arr [Num 0, Num 0, Num (- (4905 / 1000))], Arr vs, Arr (map2 fl_sub ps bs)) \<and>
      get_eq_z (Object pos vel cc default_g) =
        Inr (Num (- (4905 / 1000)), vs ! 2, fl_sub (ps ! 2) (bs ! 2))"
    if "np_array pos = Arr ps" "np_array vel = Arr vs" "np_array cc = Arr bs"
      "length ps = 3" "length vs = 3" "length bs = 3"
    using that A by (simp add: get_eq_def get_eq_z_def ebind_def get_b_Arr get_c_Arr)
  have C: "get_a (Object pos vel cc g) = Inl UnsupportedOperand \<and>
      get_eq (Object pos vel cc g) = Inl UnsupportedOperand \<and>
      get_eq_z (Object pos vel cc g) = Inl UnsupportedOperand"
    if "g = PyNone \<or> g = PyList xs"
    using that by (auto simp: get_a_def get_eq_def get_eq_z_def ebind_def)
  show ?thesis using A B C by simp
qed

theorem gravity_stored_as_passed_witness:
  "np_array (PyList [Num 0, Num 0, Num 10]) = Arr [Num 0, Num 0, Num 10] \<and>
   np_array (PyList [Num 0, Num 0, Num 0]) = Arr [Num 0, Num 0, Num 0] \<and>
   length [Num 0, Num 0, Num 10] = 3 \<and> length [Num 0, Num 0, Num 0] = 3 \<and>
   get_eq_z (Object (PyList [Num 0, Num 0, Num 10]) (PyList [Num 0, Num 0, Num 0])
      (PyList [Num 0, Num 0, Num 0]) default_g) = Inr (Num (- (4905 / 1000)), Num 0, Num 10) \<and>
   obj_g (Object (PyList [Num 0, Num 0, Num 10]) (PyList [Num 0, Num 0, Num 0])
      (PyList [Num 0, Num 0, Num 0]) (PyList [Num 0, Num 0, Num (- (981 / 100))])) =
     PyList [Num 0, Num 0, Num (- (981 / 100))] \<and>
   get_a (Object (PyList [Num 0, Num 0, Num 10]) (PyList [Num 0, Num 0, Num 0])
      (PyList [Num 0, Num 0, Num 0]) (PyList [Num 0, Num 0, Num (- (981 / 100))])) =
     Inl UnsupportedOperand \<and>
   get_eq_z (Object (PyList [Num 0, Num 0, Num 10]) (PyList [Num 0, Num 0, Num 0])
      (PyList [Num 0, Num 0, Num 0]) (PyList [Num 0, Num 0, Num (- (981 / 100))])) =
     Inl UnsupportedOperand"
  using gravity_stored_as_passed [of "PyList [Num 0, Num 0, Num 10]" "PyList [Num 0, Num 0, Num 0]"
      "PyList [Num 0, Num 0, Num 0]" "PyList [Num 0, Num 0, Num (- (981 / 100))]"
      "[Num 0, Num 0, Num 10]" "[Num 0, Num 0, Num 0]" "[Num 0, Num 0, Num 0]"
      "[Num 0, Num 0, Num (- (981 / 100))]"]
  by (simp add: fl_eval)

section \<open>The discriminant and the roots\<close>

text \<open>
  Claim C8. \<open>discriminant()\<close> applies \<open>b * b - (4 * a) * c\<close> and \<open>roots()\<close> returns the
  pair of \<open>(-b - \<surd>d) / (2 * a)\<close> and \<open>(-b + \<surd>d) / (2 * a)\<close>, in float arithmetic and
  in this order of operations: on three NumPy scalars, as \<open>get_eq_z()\<close> returns them, and
  element by element on three arrays of one length.
\<close>

theorem discriminant_and_roots_structure:
  "(get_eq_z obj = Inr (a, b, c) \<longrightarrow>
      discriminant (SecondOrderEq (Scalar a) (Scalar b) (Scalar c)) =
        Inr (Scalar (spec_discriminant a b c)) \<and>
      roots (SecondOrderEq (Scalar a) (Scalar b) (Scalar c)) =
        Inr (Scalar (spec_root1 a b c), Scalar (spec_root2 a b c))) \<and>
   (length bs = length as \<and> length cs = length as \<longrightarrow>
      discriminant (SecondOrderEq (Arr as) (Arr bs) (Arr cs)) =
        Inr (Arr (map3 spec_discriminant as bs cs)) \<and>
      roots (SecondOrderEq (Arr as) (Arr bs) (Arr cs)) =
        Inr (Arr (map3 spec_root1 as bs cs), Arr (map3 spec_root2 as bs cs)))"
  by (simp add: discriminant_Scalar roots_Scalar discriminant_Arr roots_Arr)

theorem discriminant_and_roots_structure_witness:
  "get_eq_z (Object (PyList [Num 0, Num 0, Num 9]) (PyList [Num 0, Num 0, Num 0])
      (PyList [Num 0, Num 0, Num 0]) (NdArray [Num 0, Num 0, Num (- 2)])) =
     Inr (Num (- 1), Num 0, Num 9) \<and>
   roots (SecondOrderEq (Scalar (Num (- 1))) (Scalar (Num 0)) (Scalar (Num 9))) =
     Inr (Scalar (Num 3), Scalar (Num (- 3))) \<and>
   length [Num 0, Num 0, Num 0] = length [Num 0, Num 0, Num (- 1)] \<and>
   length [Num 0, Num 0, Num 9] = length [Num 0, Num 0, Num (- 1)] \<and>
   discriminant (SecondOrderEq (Arr [Num 0, Num 0, Num (- 1)]) (Arr [Num 0, Num 0, Num 0])
      (Arr [Num 0, Num 0, Num 9])) = Inr (Arr [Num 0, Num 0, Num 36]) \<and>
   roots (SecondOrderEq (Arr [Num 0, Num 0, Num (- 1)]) (Arr [Num 0, Num 0, Num 0])
      (Arr [Num 0, Num 0, Num 9])) = Inr (Arr [NaN, NaN, Num 3], Arr [NaN, NaN, Num (- 3)])"
proof -
  have Z: "get_eq_z (Object (PyList [Num 0, Num 0, Num 9]) (PyList [Num 0, Num 0, Num 0])
      (PyList [Num 0, Num 0, Num 0]) (NdArray [Num 0, Num 0, Num (- 2)])) =
     Inr (Num (- 1), Num 0, Num 9)"
    by (simp add: get_eq_z_Arr) (simp add: fl_eval)
  show ?thesis
    using Z discriminant_and_roots_structure [of
      "Object (PyList [Num 0, Num 0, Num 9]) (PyList [Num 0, Num 0, Num 0])
         (PyList [Num 0, Num 0, Num 0]) (NdArray [Num 0, Num 0, Num (- 2)])"
      "Num (- 1)" "Num 0" "Num 9"
      "[Num 0, Num 0, Num 0]" "[Num 0, Num 0, Num (- 1)]" "[Num 0, Num 0, Num 9]"]
    by (simp add: fl_eval sqrt_36)
qed

section \<open>The order of the two roots\<close>

lemma root_order:
  assumes "is_fin (spec_root1 a b c)" and "is_fin (spec_root2 a b c)"
  shows "(fl_lt (Num 0) a \<longrightarrow> fl_le (spec_root1 a b c) (spec_root2 a b c)) \<and>
         (fl_lt a (Num 0) \<longrightarrow> fl_le (spec_root2 a b c) (spec_root1 a b c))"
proof -
  from assms(1) have F: "is_fin a" "is_fin b" "is_fin c" "rv a \<noteq> 0"
    and D: "0 \<le> rv b * rv b - 4 * rv a * rv c"
    by (simp_all add: root1_fin_iff)
  define s where "s = sqrt (rv b * rv b - 4 * rv a * rv c)"
  have s: "0 \<le> s" using D by (simp add: s_def)
  have r1: "rv (spec_root1 a b c) = (- rv b - s) / (2 * rv a)"
    using F D by (simp add: rv_root1 s_def)
  have r2: "rv (spec_root2 a b c) = (- rv b + s) / (2 * rv a)"
    using F D by (simp add: rv_root2 s_def)
  have pos: "(- rv b - s) / (2 * rv a) \<le> (- rv b + s) / (2 * rv a)" if "0 < rv a"
    using that s by (intro divide_right_mono) simp_all
  have neg: "(- rv b + s) / (2 * rv a) \<le> (- rv b - s) / (2 * rv a)" if "rv a < 0"
    using that s by (intro divide_right_mono_neg) simp_all
  show ?thesis
    using assms F pos neg by (simp add: fin_le fin_lt r1 r2)
qed

text \<open>
  Claim C3, as stated, fails: for \<open>a = -1\<close>, \<open>b = 0\<close>, \<open>c = 1\<close> (a fall from height 1
  under the gravity \<open>-2\<close>) both roots are real and \<open>roots()\<close> returns \<open>r1 = 1\<close> and
  \<open>r2 = -1\<close>.
\<close>

theorem roots_not_ordered:
  "roots (SecondOrderEq (Scalar (Num (- 1))) (Scalar (Num 0)) (Scalar (Num 1))) =
     Inr (Scalar (Num 1), Scalar (Num (- 1))) \<and>
   is_fin (Num 1) \<and> is_fin (Num (- 1)) \<and> \<not> fl_le (Num 1) (Num (- 1))"
  by (simp add: roots_Scalar fl_eval)

text \<open>
  Claim C3, amended. When both roots that \<open>roots()\<close> returns are real (finite), then
  \<open>r1 \<le> r2\<close> if \<open>a > 0\<close>, and \<open>r2 \<le> r1\<close> if \<open>a < 0\<close>: for three scalars, and for every
  component of three arrays of one length.
\<close>

theorem roots_ordered_by_sign_of_a:
  "(roots (SecondOrderEq (Scalar a) (Scalar b) (Scalar c)) = Inr (Scalar r1, Scalar r2) \<and>
    is_fin r1 \<and> is_fin r2 \<longrightarrow>
      (fl_lt (Num 0) a \<longrightarrow> fl_le r1 r2) \<and> (fl_lt a (Num 0) \<longrightarrow> fl_le r2 r1)) \<and>
   (length bs = length as \<and> length cs = length as \<and>
    roots (SecondOrderEq (Arr as) (Arr bs) (Arr cs)) = Inr (Arr q1, Arr q2) \<and>
    i < length as \<and> is_fin (q1 ! i) \<and> is_fin (q2 ! i) \<longrightarrow>
      (fl_lt (Num 0) (as ! i) \<longrightarrow> fl_le (q1 ! i) (q2 ! i)) \<and>
      (fl_lt (as ! i) (Num 0) \<longrightarrow> fl_le (q2 ! i) (q1 ! i)))"
proof (intro conjI impI; (elim conjE)?)
  assume "roots (SecondOrderEq (Scalar a) (Scalar b) (Scalar c)) = Inr (Scalar r1, Scalar r2)"
    and "is_fin r1" "is_fin r2"
  then have "is_fin (spec_root1 a b c)" "is_fin (spec_root2 a b c)"
    and "r1 = spec_root1 a b c" "r2 = spec_root2 a b c"
    by (simp_all add: roots_Scalar)
  then show "fl_lt (Num 0) a \<Longrightarrow> fl_le r1 r2" and "fl_lt a (Num 0) \<Longrightarrow> fl_le r2 r1"
    using root_order [of a b c] by simp_all
next
  assume L: "length bs = length as" "length cs = length as" "i < length as"
    and R: "roots (SecondOrderEq (Arr as) (Arr bs) (Arr cs)) = Inr (Arr q1, Arr q2)"
    and "is_fin (q1 ! i)" "is_fin (q2 ! i)"
  then have "q1 ! i = spec_root1 (as ! i) (bs ! i) (cs ! i)"
    and "q2 ! i = spec_root2 (as ! i) (bs ! i) (cs ! i)"
    by (auto simp: roots_Arr)
  with \<open>is_fin (q1 ! i)\<close> \<open>is_fin (q2 ! i)\<close>
  show "fl_lt (Num 0) (as ! i) \<Longrightarrow> fl_le (q1 ! i) (q2 ! i)"
    and "fl_lt (as ! i) (Num 0) \<Longrightarrow> fl_le (q2 ! i) (q1 ! i)"
    using root_order [of "as ! i" "bs ! i" "cs ! i"] by simp_all
qed

theorem roots_ordered_by_sign_of_a_witness:
  "roots (SecondOrderEq (Scalar (Num 1)) (Scalar (Num 0)) (Scalar (Num (- 1)))) =
     Inr (Scalar (Num (- 1)), Scalar (Num 1)) \<and>
   is_fin (Num (- 1)) \<and> is_fin (Num 1) \<and> fl_lt (Num 0) (Num 1) \<and> fl_le (Num (- 1)) (Num 1) \<and>
   length [Num 0, Num 0, Num 0] = length [Num 0, Num 0, Num (- 1)] \<and>
   length [Num 0, Num 0, Num 1] = length [Num 0, Num 0, Num (- 1)] \<and>
   roots (SecondOrderEq (Arr [Num 0, Num 0, Num (- 1)]) (Arr [Num 0, Num 0, Num 0])
      (Arr [Num 0, Num 0, Num 1])) = Inr (Arr [NaN, NaN, Num 1], Arr [NaN, NaN, Num (- 1)]) \<and>
   2 < length [Num 0, Num 0, Num (- 1)] \<and>
   is_fin ([NaN, NaN, Num 1] ! 2) \<and> is_fin ([NaN, NaN, Num (- 1)] ! 2) \<and>
   fl_lt ([Num 0, Num 0, Num (- 1)] ! 2) (Num 0) \<and>
   fl_le ([NaN, NaN, Num (- 1)] ! 2) ([NaN, NaN, Num 1] ! 2)"
proof -
  have S: "roots (SecondOrderEq (Scalar (Num 1)) (Scalar (Num 0)) (Scalar (Num (- 1)))) =
     Inr (Scalar (Num (- 1)), Scalar (Num 1))"
    by (simp add: roots_Scalar fl_eval)
  have A: "roots (SecondOrderEq (Arr [Num 0, Num 0, Num (- 1)]) (Arr [Num 0, Num 0, Num 0])
      (Arr [Num 0, Num 0, Num 1])) = Inr (Arr [NaN, NaN, Num 1], Arr [NaN, NaN, Num (- 1)])"
    by (simp add: roots_Arr fl_eval)
  have L: "fl_lt (Num 0) (Num 1)" "fl_lt ([Num 0, Num 0, Num (- 1)] ! 2) (Num 0)"
    by (simp_all add: fl_lt_def)
  show ?thesis
    using roots_ordered_by_sign_of_a [of "Num 1" "Num 0" "Num (- 1)" "Num (- 1)" "Num 1"
        "[Num 0, Num 0, Num 0]" "[Num 0, Num 0, Num (- 1)]" "[Num 0, Num 0, Num 1]"
        "[NaN, NaN, Num 1]" "[NaN, NaN, Num (- 1)]" 2] S A L
    by simp
qed

section \<open>A contact time that is not negative\<close>

text \<open>
  With \<open>a < 0\<close> the second root is never \<open>+\<infinity>\<close>; so when the first root is not-a-number,
  the second one is not a number that is at least 0 either.
\<close>

lemma half_negative: "fl_lt x (Num 0) \<Longrightarrow> fl_lt (fl_mul (Num (1 / 2)) x) (Num 0)"
  by (cases x) (simp_all add: fl_lt_def fl_mul_def mk_def signed_inf_def)

lemma div_pinf_by_negative:
  "fl_lt a (Num 0) \<Longrightarrow> fl_div x (fl_mul (Num 2) a) = PInf \<Longrightarrow> x = NInf"
  by (cases a; cases x)
     (simp_all add: fl_lt_def fl_mul_def fl_div_def mk_def signed_inf_def signed_zero_def
       split: if_splits)

lemma add_sqrt_ninf: "fl_add x (fl_sqrt d) = NInf \<Longrightarrow> x = NInf \<and> is_fin (fl_sqrt d)"
  by (cases x; cases d) (simp_all add: fl_add_def mk_def signed_zero_def split: if_splits)

lemma neg_ninf: "fl_neg b = NInf \<Longrightarrow> b = PInf"
  by (cases b) (simp_all split: if_splits)

lemma root2_not_pinf:
  assumes "fl_lt a (Num 0)"
  shows "spec_root2 a b c \<noteq> PInf"
proof
  assume "spec_root2 a b c = PInf"
  then have "fl_add (fl_neg b) (fl_sqrt (spec_discriminant a b c)) = NInf"
    unfolding spec_root2_def by (rule div_pinf_by_negative [OF assms])
  then have "fl_neg b = NInf" and "is_fin (fl_sqrt (spec_discriminant a b c))"
    by (simp_all add: add_sqrt_ninf)
  then have "b = PInf" and "is_fin b"
    by (simp_all add: neg_ninf sqrt_fin_iff discriminant_fin_iff)
  then show False by simp
qed

lemma time_nonnegative_policy:
  assumes "fl_lt a (Num 0)"
    and "fl_le (Num 0) (spec_root1 a b c) \<or> fl_le (Num 0) (spec_root2 a b c)"
  shows "fl_le (Num 0) (spec_time a b c)"
proof (cases "is_fin (spec_root1 a b c)")
  case True
  then have "is_fin (spec_root2 a b c)" by (simp add: root1_fin_iff root2_fin_iff)
  with True assms(2) show ?thesis
    by (auto simp: spec_time_def fin_le fin_lt)
next
  case False
  then have f2: "\<not> is_fin (spec_root2 a b c)" by (simp add: root1_fin_iff root2_fin_iff)
  have n2: "\<not> fl_le (Num 0) (spec_root2 a b c)"
    using f2 root2_not_pinf [OF assms(1), of b c]
    by (cases "spec_root2 a b c") (simp_all add: fl_le_def fl_lt_def fl_eq_def)
  with assms(2) have "fl_le (Num 0) (spec_root1 a b c)" by simp
  with False show ?thesis
    by (cases "spec_root1 a b c") (simp_all add: spec_time_def fl_le_def fl_lt_def fl_eq_def)
qed

text \<open>
  Claim C6, as stated, fails: for an object above the boundary, under the gravity
  \<open>(0, 0, -2)\<close>, whose vertical velocity is \<open>-\<infinity>\<close>, the first root is not-a-number and
  \<open>get_time_contact_ground()\<close> returns it; not-a-number is not at least 0.
\<close>

theorem time_nan_for_infinite_velocity:
  "get_eq (Object (PyList [Num 0, Num 0, Num 1]) (PyList [Num 0, Num 0, NInf])
      (PyList [Num 0, Num 0, Num 0]) (NdArray [Num 0, Num 0, Num (- 2)])) =
     Inr (Arr [Num 0, Num 0, Num (- 1)], Arr [Num 0, Num 0, NInf], Arr [Num 0, Num 0, Num 1]) \<and>
   fl_lt ([Num 0, Num 0, Num (- 2)] ! 2) (Num 0) \<and>
   fl_lt ([Num 0, Num 0, Num 0] ! 2) ([Num 0, Num 0, Num 1] ! 2) \<and>
   get_time_contact_ground (SecondOrderEq (Arr [Num 0, Num 0, Num (- 1)])
      (Arr [Num 0, Num 0, NInf]) (Arr [Num 0, Num 0, Num 1])) = Inr NaN \<and>
   \<not> fl_le (Num 0) NaN"
  by (simp add: get_eq_Arr time_Arr) (simp add: fl_eval)

text \<open>
  Claim C6, amended. For an object whose vertical gravity is negative (whatever its
  position), \<open>get_time_contact_ground()\<close> on the coefficients of \<open>get_eq()\<close> returns
  a value that is at least 0 whenever one of the two vertical roots that \<open>roots()\<close>
  returns is at least 0.
\<close>

theorem time_nonnegative_when_root_nonnegative:
  assumes "np_array pos = Arr ps" and "np_array vel = Arr vs" and "np_array cc = Arr bs"
    and "length ps = 3" and "length vs = 3" and "length bs = 3" and "length gs = 3"
    and "fl_lt (gs ! 2) (Num 0)"
    and "get_eq (Object pos vel cc (NdArray gs)) = Inr (a, b, c)"
    and "roots (SecondOrderEq a b c) = Inr (Arr r1, Arr r2)"
    and "fl_le (Num 0) (r1 ! 2) \<or> fl_le (Num 0) (r2 ! 2)"
  shows "\<exists>t. get_time_contact_ground (SecondOrderEq a b c) = Inr t \<and> fl_le (Num 0) t"
proof -
  let ?as = "map (fl_mul (Num (1 / 2))) gs" and ?cs = "map2 fl_sub ps bs"
  have E: "a = Arr ?as" "b = Arr vs" "c = Arr ?cs"
    using assms(1-7,9) by (simp_all add: get_eq_Arr)
  have L: "length vs = length ?as" "length ?cs = length ?as" "2 < length ?as"
    using assms(4-7) by simp_all
  have R: "r1 = map3 spec_root1 ?as vs ?cs" "r2 = map3 spec_root2 ?as vs ?cs"
    using assms(10) unfolding E roots_Arr [OF L(1,2)] by simp_all
  have z: "r1 ! 2 = spec_root1 (?as ! 2) (vs ! 2) (?cs ! 2)"
    "r2 ! 2 = spec_root2 (?as ! 2) (vs ! 2) (?cs ! 2)"
    using assms(4-7) by (simp_all add: R)
  have "?as ! 2 = fl_mul (Num (1 / 2)) (gs ! 2)" using assms(7) by simp
  with assms(8) have neg: "fl_lt (?as ! 2) (Num 0)" by (simp add: half_negative)
  have T: "get_time_contact_ground (SecondOrderEq a b c) =
      Inr (spec_time (?as ! 2) (vs ! 2) (?cs ! 2))"
    unfolding E by (rule time_Arr [OF L])
  have "fl_le (Num 0) (spec_time (?as ! 2) (vs ! 2) (?cs ! 2))"
    using assms(11) unfolding z by (rule time_nonnegative_policy [OF neg])
  with T show ?thesis by blast
qed

theorem time_nonnegative_when_root_nonnegative_witness:
  "np_array (PyList [Num 0, Num 0, Num 1]) = Arr [Num 0, Num 0, Num 1] \<and>
   np_array (PyList [Num 0, Num 0, Num 0]) = Arr [Num 0, Num 0, Num 0] \<and>
   length [Num 0, Num 0, Num 1] = 3 \<and> length [Num 0, Num 0, Num 0] = 3 \<and>
   length [Num 0, Num 0, Num (- 2)] = 3 \<and>
   fl_lt ([Num 0, Num 0, Num (- 2)] ! 2) (Num 0) \<and>
   get_eq (Object (PyList [Num 0, Num 0, Num 1]) (PyList [Num 0, Num 0, Num 0])
        (PyList [Num 0, Num 0, Num 0]) (NdArray [Num 0, Num 0, Num (- 2)])) =
     Inr (Arr [Num 0, Num 0, Num (- 1)], Arr [Num 0, Num 0, Num 0], Arr [Num 0, Num 0, Num 1]) \<and>
   roots (SecondOrderEq (Arr [Num 0, Num 0, Num (- 1)]) (Arr [Num 0, Num 0, Num 0])
        (Arr [Num 0, Num 0, Num 1])) = Inr (Arr [NaN, NaN, Num 1], Arr [NaN, NaN, Num (- 1)]) \<and>
   fl_le (Num 0) ([NaN, NaN, Num 1] ! 2) \<and>
   (\<exists>t. get_time_contact_ground (SecondOrderEq (Arr [Num 0, Num 0, Num (- 1)])
        (Arr [Num 0, Num 0, Num 0]) (Arr [Num 0, Num 0, Num 1])) = Inr t \<and> fl_le (Num 0) t)"
proof -
  have H: "fl_lt ([Num 0, Num 0, Num (- 2)] ! 2) (Num 0)" "fl_le (Num 0) ([NaN, NaN, Num 1] ! 2)"
    by (simp_all add: fl_lt_def fl_le_def)
  have E: "get_eq (Object (PyList [Num 0, Num 0, Num 1]) (PyList [Num 0, Num 0, Num 0])
        (PyList [Num 0, Num 0, Num 0]) (NdArray [Num 0, Num 0, Num (- 2)])) =
     Inr (Arr [Num 0, Num 0, Num (- 1)], Arr [Num 0, Num 0, Num 0], Arr [Num 0, Num 0, Num 1])"
    by (simp add: get_eq_Arr) (simp add: fl_eval)
  have R: "roots (SecondOrderEq (Arr [Num 0, Num 0, Num (- 1)]) (Arr [Num 0, Num 0, Num 0])
        (Arr [Num 0, Num 0, Num 1])) = Inr (Arr [NaN, NaN, Num 1], Arr [NaN, NaN, Num (- 1)])"
    by (simp add: roots_Arr fl_eval)
  show ?thesis
    using H E R time_nonnegative_when_root_nonnegative [of "PyList [Num 0, Num 0, Num 1]"
      "[Num 0, Num 0, Num 1]" "PyList [Num 0, Num 0, Num 0]" "[Num 0, Num 0, Num 0]"
      "PyList [Num 0, Num 0, Num 0]" "[Num 0, Num 0, Num 0]" "[Num 0, Num 0, Num (- 2)]"
      "Arr [Num 0, Num 0, Num (- 1)]" "Arr [Num 0, Num 0, Num 0]" "Arr [Num 0, Num 0, Num 1]"
      "[NaN, NaN, Num 1]" "[NaN, NaN, Num (- 1)]"]
    by simp
qed

section \<open>The value at the time of contact\<close>

lemma quadratic_zero:
  fixes A B C x :: real
  assumes "A \<noteq> 0" and "(2 * A * x + B) * (2 * A * x + B) = B * B - 4 * A * C"
  shows "A * (x * x) + B * x + C = 0"
proof -
  have "4 * A * (A * (x * x) + B * x + C) =
      (2 * A * x + B) * (2 * A * x + B) - (B * B - 4 * A * C)"
    by (simp add: algebra_simps)
  also have "\<dots> = 0" using assms(2) by simp
  finally show ?thesis using assms(1) by simp
qed

lemma quadratic_at_root:
  fixes A B C s :: real
  assumes "A \<noteq> 0" and "s * s = B * B - 4 * A * C"
  shows "A * (((- B - s) / (2 * A)) * ((- B - s) / (2 * A))) + B * ((- B - s) / (2 * A)) + C = 0"
    and "A * (((- B + s) / (2 * A)) * ((- B + s) / (2 * A))) + B * ((- B + s) / (2 * A)) + C = 0"
proof -
  have "2 * A * ((- B - s) / (2 * A)) + B = - s" using assms(1) by simp
  then show "A * (((- B - s) / (2 * A)) * ((- B - s) / (2 * A))) + B * ((- B - s) / (2 * A)) + C = 0"
    using assms by (intro quadratic_zero) simp_all
  have "2 * A * ((- B + s) / (2 * A)) + B = s" using assms(1) by simp
  then show "A * (((- B + s) / (2 * A)) * ((- B + s) / (2 * A))) + B * ((- B + s) / (2 * A)) + C = 0"
    using assms by (intro quadratic_zero) simp_all
qed

lemma time_fin_iff:
  "is_fin (spec_time a b c) \<longleftrightarrow>
     is_fin a \<and> is_fin b \<and> is_fin c \<and> rv a \<noteq> 0 \<and> 0 \<le> rv b * rv b - 4 * rv a * rv c"
  by (simp add: spec_time_def root1_fin_iff root2_fin_iff)

lemma rv_eval:
  "is_fin t \<Longrightarrow> is_fin a \<Longrightarrow> is_fin b \<Longrightarrow> is_fin c \<Longrightarrow>
   is_fin (spec_eval t a b c) \<and> rv (spec_eval t a b c) = rv a * (rv t * rv t) + rv b * rv t + rv c"
  by (simp add: spec_eval_def fin_add fin_mul)

lemma eval_at_time:
  assumes "is_fin (spec_time a b c)"
  shows "is_fin (spec_eval (spec_time a b c) a b c) \<and> rv (spec_eval (spec_time a b c) a b c) = 0"
proof -
  from assms have F: "is_fin a" "is_fin b" "is_fin c" "rv a \<noteq> 0"
    and D: "0 \<le> rv b * rv b - 4 * rv a * rv c"
    by (simp_all add: time_fin_iff)
  define s where "s = sqrt (rv b * rv b - 4 * rv a * rv c)"
  have s: "s * s = rv b * rv b - 4 * rv a * rv c" using D by (simp add: s_def)
  have r1: "rv (spec_root1 a b c) = (- rv b - s) / (2 * rv a)"
    using F D by (simp add: rv_root1 s_def)
  have r2: "rv (spec_root2 a b c) = (- rv b + s) / (2 * rv a)"
    using F D by (simp add: rv_root2 s_def)
  have "rv a * (rv (spec_time a b c) * rv (spec_time a b c)) + rv b * rv (spec_time a b c) + rv c = 0"
    using quadratic_at_root [OF F(4) s] by (simp add: spec_time_def r1 r2)
  with rv_eval [OF assms F(1-3)] show ?thesis by simp
qed

text \<open>
  Claim C1, as stated, fails: for an object at height 10, at rest, with the collision
  boundary at height 1 and the gravity \<open>(0, 0, -2)\<close>, the contact time is 3 and
  \<open>get_distance_at_contact_ground()\<close> returns \<open>(0, 0, 0)\<close>; its vertical component is
  0, the vertical component of the boundary is 1.
\<close>

theorem distance_is_not_boundary:
  "get_eq (Object (PyList [Num 0, Num 0, Num 10]) (PyList [Num 0, Num 0, Num 0])
      (PyList [Num 0, Num 0, Num 1]) (NdArray [Num 0, Num 0, Num (- 2)])) =
     Inr (Arr [Num 0, Num 0, Num (- 1)], Arr [Num 0, Num 0, Num 0], Arr [Num 0, Num 0, Num 9]) \<and>
   get_time_contact_ground (SecondOrderEq (Arr [Num 0, Num 0, Num (- 1)])
      (Arr [Num 0, Num 0, Num 0]) (Arr [Num 0, Num 0, Num 9])) = Inr (Num 3) \<and>
   get_distance_at_contact_ground (SecondOrderEq (Arr [Num 0, Num 0, Num (- 1)])
      (Arr [Num 0, Num 0, Num 0]) (Arr [Num 0, Num 0, Num 9])) =
     Inr (Arr [Num 0, Num 0, Num 0]) \<and>
   \<not> fl_eq ([Num 0, Num 0, Num 0] ! 2) ([Num 0, Num 0, Num 1] ! 2)"
proof -
  have T: "spec_time (Num (- 1)) (Num 0) (Num 9) = Num 3"
    by (simp add: fl_eval sqrt_36)
  show ?thesis
    by (simp add: get_eq_Arr time_Arr distance_Arr T) (simp add: fl_eval)
qed

text \<open>Small integers are computed without rounding.\<close>

lemma representable_int: "\<bar>i\<bar> < 2 ^ 53 \<Longrightarrow> representable (real_of_int i)"
  unfolding representable_def by (rule exI [of _ i], rule exI [of _ 1074]) simp

lemma exact_int: "\<bar>i\<bar> < 2 ^ 53 \<Longrightarrow> exact (real_of_int i)"
proof -
  assume h: "\<bar>i\<bar> < 2 ^ 53"
  then have "\<bar>i\<bar> < 2 ^ 63" by simp
  then have "\<bar>real_of_int i\<bar> < 2 ^ 63"
    by (metis of_int_abs of_int_less_numeral_power_cancel_iff)
  with h show ?thesis by (simp add: exact_def representable_int)
qed

lemma exact_small:
  "exact 0" "exact 1" "exact 2" "exact 3" "exact 4" "exact 6" "exact 9" "exact 10" "exact 36"
  "exact (- 1)" "exact (- 2)" "exact (- 3)" "exact (- 4)" "exact (- 6)" "exact (- 9)"
  "exact (- 36)"
  using exact_int [of 0] exact_int [of 1] exact_int [of 2] exact_int [of 3] exact_int [of 4]
    exact_int [of 6] exact_int [of 9] exact_int [of 10] exact_int [of 36]
    exact_int [of "- 1"] exact_int [of "- 2"] exact_int [of "- 3"] exact_int [of "- 4"]
    exact_int [of "- 6"] exact_int [of "- 9"] exact_int [of "- 36"]
  by simp_all

lemma contact_values_example:
  "contact_values 10 1 0 (- 2) =
     [10, 1, 0, - 2, - 1, 9, 0, - 4, - 36, 36, 6, - 6, 6, - 2, 3, - 3, 9, - 9, 0, - 9]"
  by (simp add: contact_values_def Let_def sqrt_36)

text \<open>
  Claim C1, amended. For an object with the gravity \<open>(0, 0, -g)\<close>, \<open>g > 0\<close>, whose
  contact time is a real number, \<open>get_distance_at_contact_ground()\<close> returns an array
  of three components. When no operation on the vertical axis rounds (the operands and
  the exact result of every operation are \<open>float64\<close> numbers below \<open>2\<^sup>6\<^sup>3\<close> in
  magnitude), its vertical component is 0: the value is the distance to the collision
  boundary, since \<open>c\<close> is the position minus the boundary. Adding the vertical component
  of the boundary to it gives the vertical component of the boundary.
\<close>

theorem distance_zero_when_exact:
  assumes "np_array pos = Arr ps" and "np_array vel = Arr vs" and "np_array cc = Arr bs"
    and "length ps = 3" and "length vs = 3" and "length bs = 3"
    and "0 < g"
    and "get_eq (Object pos vel cc (NdArray [Num 0, Num 0, Num (- g)])) = Inr (a, b, c)"
    and "get_time_contact_ground (SecondOrderEq a b c) = Inr t" and "is_fin t"
  shows "\<exists>p. get_distance_at_contact_ground (SecondOrderEq a b c) = Inr (Arr p) \<and>
           length p = 3 \<and>
           (list_all exact (contact_values (rv (ps ! 2)) (rv (bs ! 2)) (rv (vs ! 2)) (- g)) \<longrightarrow>
              fl_eq (p ! 2) (Num 0) \<and> fl_eq (fl_add (p ! 2) (bs ! 2)) (bs ! 2))"
proof -
  let ?gs = "[Num 0, Num 0, Num (- g)]"
  let ?as = "map (fl_mul (Num (1 / 2))) ?gs" and ?cs = "map2 fl_sub ps bs"
  have E: "a = Arr ?as" "b = Arr vs" "c = Arr ?cs"
    using assms(1-6,8) by (simp_all add: get_eq_Arr)
  have L: "length vs = length ?as" "length ?cs = length ?as" "2 < length ?as"
    using assms(4-6) by simp_all
  let ?t = "spec_time (?as ! 2) (vs ! 2) (?cs ! 2)"
  have T: "t = ?t"
    using assms(9) unfolding E time_Arr [OF L] by simp
  with \<open>is_fin t\<close> have ft: "is_fin ?t" by simp
  have cz: "?cs ! 2 = fl_sub (ps ! 2) (bs ! 2)" using assms(4,6) by simp
  from ft have "is_fin (?cs ! 2)" by (simp only: time_fin_iff)
  then have fb: "is_fin (bs ! 2)" by (simp add: cz sub_fin_iff)
  let ?p = "map3 (spec_eval ?t) ?as vs ?cs"
  have D: "get_distance_at_contact_ground (SecondOrderEq a b c) = Inr (Arr ?p)"
    unfolding E by (rule distance_Arr [OF L])
  have pz: "?p ! 2 = spec_eval ?t (?as ! 2) (vs ! 2) (?cs ! 2)"
    using assms(4-6) by simp
  from eval_at_time [OF ft] have Z: "is_fin (?p ! 2)" "rv (?p ! 2) = 0"
    by (simp_all only: pz)
  have "length ?p = 3" using assms(4-6) by simp
  moreover have "fl_eq (?p ! 2) (Num 0)" using Z by (simp add: fin_eq)
  moreover have "fl_eq (fl_add (?p ! 2) (bs ! 2)) (bs ! 2)"
    using Z fb by (simp add: fin_eq fin_add)
  ultimately show ?thesis using D by blast
qed

theorem distance_zero_when_exact_witness:
  "np_array (PyList [Num 0, Num 0, Num 10]) = Arr [Num 0, Num 0, Num 10] \<and>
   np_array (PyList [Num 0, Num 0, Num 0]) = Arr [Num 0, Num 0, Num 0] \<and>
   np_array (PyList [Num 0, Num 0, Num 1]) = Arr [Num 0, Num 0, Num 1] \<and>
   length [Num 0, Num 0, Num 10] = 3 \<and> length [Num 0, Num 0, Num 0] = 3 \<and>
   length [Num 0, Num 0, Num 1] = 3 \<and> (0::real) < 2 \<and>
   get_eq (Object (PyList [Num 0, Num 0, Num 10]) (PyList [Num 0, Num 0, Num 0])
      (PyList [Num 0, Num 0, Num 1]) (NdArray [Num 0, Num 0, Num (- 2)])) =
     Inr (Arr [Num 0, Num 0, Num (- 1)], Arr [Num 0, Num 0, Num 0], Arr [Num 0, Num 0, Num 9]) \<and>
   get_time_contact_ground (SecondOrderEq (Arr [Num 0, Num 0, Num (- 1)])
      (Arr [Num 0, Num 0, Num 0]) (Arr [Num 0, Num 0, Num 9])) = Inr (Num 3) \<and>
   is_fin (Num 3) \<and>
   list_all exact (contact_values (rv ([Num 0, Num 0, Num 10] ! 2)) (rv ([Num 0, Num 0, Num 1] ! 2))
      (rv ([Num 0, Num 0, Num 0] ! 2)) (- 2)) \<and>
   (\<exists>p. get_distance_at_contact_ground (SecondOrderEq (Arr [Num 0, Num 0, Num (- 1)])
      (Arr [Num 0, Num 0, Num 0]) (Arr [Num 0, Num 0, Num 9])) = Inr (Arr p) \<and>
      length p = 3 \<and> fl_eq (p ! 2) (Num 0) \<and>
      fl_eq (fl_add (p ! 2) ([Num 0, Num 0, Num 1] ! 2)) ([Num 0, Num 0, Num 1] ! 2))"
proof -
  have T: "spec_time (Num (- 1)) (Num 0) (Num 9) = Num 3"
    by (simp add: fl_eval sqrt_36)
  have E: "get_eq (Object (PyList [Num 0, Num 0, Num 10]) (PyList [Num 0, Num 0, Num 0])
      (PyList [Num 0, Num 0, Num 1]) (NdArray [Num 0, Num 0, Num (- 2)])) =
     Inr (Arr [Num 0, Num 0, Num (- 1)], Arr [Num 0, Num 0, Num 0], Arr [Num 0, Num 0, Num 9])"
    by (simp add: get_eq_Arr) (simp add: fl_eval)
  have G: "get_time_contact_ground (SecondOrderEq (Arr [Num 0, Num 0, Num (- 1)])
      (Arr [Num 0, Num 0, Num 0]) (Arr [Num 0, Num 0, Num 9])) = Inr (Num 3)"
    by (simp add: time_Arr T)
  have X: "list_all exact (contact_values (rv ([Num 0, Num 0, Num 10] ! 2))
      (rv ([Num 0, Num 0, Num 1] ! 2)) (rv ([Num 0, Num 0, Num 0] ! 2)) (- 2))"
    by (simp add: contact_values_example exact_small)
  show ?thesis
    using E G X distance_zero_when_exact [of "PyList [Num 0, Num 0, Num 10]"
      "[Num 0, Num 0, Num 10]" "PyList [Num 0, Num 0, Num 0]" "[Num 0, Num 0, Num 0]"
      "PyList [Num 0, Num 0, Num 1]" "[Num 0, Num 0, Num 1]" 2
      "Arr [Num 0, Num 0, Num (- 1)]" "Arr [Num 0, Num 0, Num 0]" "Arr [Num 0, Num 0, Num 9]"
      "Num 3"]
    by simp
qed

section \<open>Which root the contact time is\<close>

text \<open>
  Claim C2, as stated, fails: for the vertical coefficients \<open>a = -1\<close>, \<open>b = 3\<close>,
  \<open>c = -2\<close> (thrown upwards from below the boundary) the roots are 1 and 2, and
  \<open>get_time_contact_ground()\<close> returns 2, while 1 is a root that is not negative and
  comes earlier.
\<close>

theorem time_is_not_earliest_root:
  "get_time_contact_ground (SecondOrderEq (Arr [Num 0, Num 0, Num (- 1)])
      (Arr [Num 0, Num 0, Num 3]) (Arr [Num 0, Num 0, Num (- 2)])) = Inr (Num 2) \<and>
   fl_eq (spec_eval (Num 1) (Num (- 1)) (Num 3) (Num (- 2))) (Num 0) \<and>
   fl_le (Num 0) (Num 1) \<and> fl_lt (Num 1) (Num 2)"
  by (simp add: time_Arr) (simp add: fl_eval)

text \<open>
  The selection, on two real roots of which one is at least 0: the selected one is at
  least 0; it is the least of those that are at least 0 when the first root is at most
  the second, and it is the first root when the second is at most the first.
\<close>

lemma selection_policy:
  assumes "is_fin x1" and "is_fin x2" and "fl_le (Num 0) x1 \<or> fl_le (Num 0) x2"
  defines "t \<equiv> (if fl_lt x1 (Num 0) then x2 else x1)"
  shows "fl_le (Num 0) t"
    and "fl_le x1 x2 \<Longrightarrow> fl_le (Num 0) x1 \<Longrightarrow> fl_le t x1"
    and "fl_le x1 x2 \<Longrightarrow> fl_le (Num 0) x2 \<Longrightarrow> fl_le t x2"
    and "fl_le x2 x1 \<Longrightarrow> t = x1"
  using assms(1-3) unfolding t_def by (auto simp: fin_le fin_lt)

text \<open>
  Claim C2, amended. For three coefficient arrays of one length, at least 3, whose two
  vertical roots returned by \<open>roots()\<close> are real, one of them at least 0,
  \<open>get_time_contact_ground()\<close> returns one of these two roots, and one that is at
  least 0: the earliest of those that are at least 0 when \<open>r1 \<le> r2\<close>, and \<open>r1\<close>, the
  later of the two, when \<open>r2 \<le> r1\<close>.
\<close>

theorem time_is_selected_computed_root:
  assumes "length bs = length as" and "length cs = length as" and "2 < length as"
    and "roots (SecondOrderEq (Arr as) (Arr bs) (Arr cs)) = Inr (Arr r1, Arr r2)"
    and "is_fin (r1 ! 2)" and "is_fin (r2 ! 2)"
    and "fl_le (Num 0) (r1 ! 2) \<or> fl_le (Num 0) (r2 ! 2)"
  shows "\<exists>t. get_time_contact_ground (SecondOrderEq (Arr as) (Arr bs) (Arr cs)) = Inr t \<and>
      (t = r1 ! 2 \<or> t = r2 ! 2) \<and> fl_le (Num 0) t \<and>
      (fl_le (r1 ! 2) (r2 ! 2) \<longrightarrow>
         (fl_le (Num 0) (r1 ! 2) \<longrightarrow> fl_le t (r1 ! 2)) \<and>
         (fl_le (Num 0) (r2 ! 2) \<longrightarrow> fl_le t (r2 ! 2))) \<and>
      (fl_le (r2 ! 2) (r1 ! 2) \<longrightarrow> t = r1 ! 2)"
proof -
  let ?a = "as ! 2" and ?b = "bs ! 2" and ?c = "cs ! 2"
  have R: "r1 = map3 spec_root1 as bs cs" "r2 = map3 spec_root2 as bs cs"
    using assms(1,2,4) by (simp_all add: roots_Arr)
  have z: "r1 ! 2 = spec_root1 ?a ?b ?c" "r2 ! 2 = spec_root2 ?a ?b ?c"
    using assms(1-3) by (simp_all add: R)
  let ?t = "if fl_lt (r1 ! 2) (Num 0) then r2 ! 2 else r1 ! 2"
  have T: "get_time_contact_ground (SecondOrderEq (Arr as) (Arr bs) (Arr cs)) = Inr ?t"
    using assms(1-3) by (simp add: time_Arr spec_time_def z)
  note P = selection_policy [OF assms(5-7)]
  have "?t = r1 ! 2 \<or> ?t = r2 ! 2" by simp
  moreover have "fl_le (Num 0) ?t" by (rule P(1))
  moreover have "fl_le (r1 ! 2) (r2 ! 2) \<longrightarrow>
         (fl_le (Num 0) (r1 ! 2) \<longrightarrow> fl_le ?t (r1 ! 2)) \<and>
         (fl_le (Num 0) (r2 ! 2) \<longrightarrow> fl_le ?t (r2 ! 2))"
    using P(2,3) by blast
  moreover have "fl_le (r2 ! 2) (r1 ! 2) \<longrightarrow> ?t = r1 ! 2"
    using P(4) by blast
  ultimately show ?thesis using T by blast
qed

theorem time_is_selected_computed_root_witness:
  "length [Num 0, Num 0, Num 3] = length [Num 0, Num 0, Num (- 1)] \<and>
   length [Num 0, Num 0, Num (- 2)] = length [Num 0, Num 0, Num (- 1)] \<and>
   2 < length [Num 0, Num 0, Num (- 1)] \<and>
   roots (SecondOrderEq (Arr [Num 0, Num 0, Num (- 1)]) (Arr [Num 0, Num 0, Num 3])
     (Arr [Num 0, Num 0, Num (- 2)])) = Inr (Arr [NaN, NaN, Num 2], Arr [NaN, NaN, Num 1]) \<and>
   is_fin ([NaN, NaN, Num 2] ! 2) \<and> is_fin ([NaN, NaN, Num 1] ! 2) \<and>
   fl_le (Num 0) ([NaN, NaN, Num 2] ! 2) \<and> fl_le ([NaN, NaN, Num 1] ! 2) ([NaN, NaN, Num 2] ! 2) \<and>
   get_time_contact_ground (SecondOrderEq (Arr [Num 0, Num 0, Num (- 1)])
     (Arr [Num 0, Num 0, Num 3]) (Arr [Num 0, Num 0, Num (- 2)])) = Inr (Num 2) \<and>
   roots (SecondOrderEq (Arr [Num 0, Num 0, Num 1]) (Arr [Num 0, Num 0, Num (- 3)])
     (Arr [Num 0, Num 0, Num 2])) = Inr (Arr [NaN, NaN, Num 1], Arr [NaN, NaN, Num 2]) \<and>
   fl_le ([NaN, NaN, Num 1] ! 2) ([NaN, NaN, Num 2] ! 2) \<and>
   (\<exists>t. get_time_contact_ground (SecondOrderEq (Arr [Num 0, Num 0, Num 1])
     (Arr [Num 0, Num 0, Num (- 3)]) (Arr [Num 0, Num 0, Num 2])) = Inr t \<and>
     fl_le (Num 0) t \<and> fl_le t (Num 1) \<and> fl_le t (Num 2))"
proof -
  let ?e = "SecondOrderEq (Arr [Num 0, Num 0, Num (- 1)]) (Arr [Num 0, Num 0, Num 3])
     (Arr [Num 0, Num 0, Num (- 2)])"
  let ?f = "SecondOrderEq (Arr [Num 0, Num 0, Num 1]) (Arr [Num 0, Num 0, Num (- 3)])
     (Arr [Num 0, Num 0, Num 2])"
  have R: "roots ?e = Inr (Arr [NaN, NaN, Num 2], Arr [NaN, NaN, Num 1])"
    by (simp add: roots_Arr fl_eval)
  have S: "roots ?f = Inr (Arr [NaN, NaN, Num 1], Arr [NaN, NaN, Num 2])"
    by (simp add: roots_Arr fl_eval)
  have O: "fl_le (Num 0) ([NaN, NaN, Num 2] ! 2)" "fl_le ([NaN, NaN, Num 1] ! 2) ([NaN, NaN, Num 2] ! 2)"
    "fl_le (Num 0) ([NaN, NaN, Num 1] ! 2)"
    by (simp_all add: fl_le_def fl_lt_def)
  obtain t where t: "get_time_contact_ground ?e = Inr t"
    and "fl_le ([NaN, NaN, Num 1] ! 2) ([NaN, NaN, Num 2] ! 2) \<longrightarrow> t = [NaN, NaN, Num 2] ! 2"
    using time_is_selected_computed_root [OF _ _ _ R] O by auto
  with O have 1: "get_time_contact_ground ?e = Inr (Num 2)" by simp
  obtain u where u: "get_time_contact_ground ?f = Inr u" "fl_le (Num 0) u"
    and "fl_le ([NaN, NaN, Num 1] ! 2) ([NaN, NaN, Num 2] ! 2) \<longrightarrow>
         (fl_le (Num 0) ([NaN, NaN, Num 1] ! 2) \<longrightarrow> fl_le u ([NaN, NaN, Num 1] ! 2)) \<and>
         (fl_le (Num 0) ([NaN, NaN, Num 2] ! 2) \<longrightarrow> fl_le u ([NaN, NaN, Num 2] ! 2))"
    using time_is_selected_computed_root [OF _ _ _ S] O by auto
  with O have "fl_le u (Num 1)" "fl_le u (Num 2)" by simp_all
  with u have 2: "\<exists>t. get_time_contact_ground ?f = Inr t \<and>
     fl_le (Num 0) t \<and> fl_le t (Num 1) \<and> fl_le t (Num 2)" by blast
  show ?thesis using R S O 1 2 by simp
qed

section \<open>Invalid configurations\<close>

text \<open>
  A not-a-number or an infinity stays one through the arithmetic, the square root of a
  negative number is not-a-number, and a division by a zero gives an infinity or
  not-a-number.
\<close>

lemma special_neg: "is_special x \<Longrightarrow> is_special (fl_neg x)"
  by (cases x) (simp_all add: is_special_def)

lemma special_add:
  "is_special x \<or> is_special y \<Longrightarrow> is_special (fl_add x y)"
  by (cases x; cases y) (simp_all add: is_special_def fl_add_def)

lemma special_sub:
  "is_special x \<or> is_special y \<Longrightarrow> is_special (fl_sub x y)"
  unfolding fl_sub_def by (rule special_add) (auto intro: special_neg)

lemma special_mul:
  "is_special x \<or> is_special y \<Longrightarrow> is_special (fl_mul x y)"
  by (cases x; cases y) (simp_all add: is_special_def fl_mul_def signed_inf_def)

lemma special_div_num: "is_special x \<Longrightarrow> is_special (fl_div x y)"
  by (cases x; cases y) (simp_all add: is_special_def fl_div_def signed_inf_def)

lemma special_div_zero: "is_zero y \<Longrightarrow> is_special (fl_div x y)"
  by (cases x; cases y) (simp_all add: is_special_def fl_div_def signed_inf_def)

lemma special_sqrt_negative: "fl_lt d (Num 0) \<Longrightarrow> is_special (fl_sqrt d)"
  by (cases d) (simp_all add: is_special_def fl_lt_def)

lemma zero_twice: "is_zero a \<Longrightarrow> is_zero (fl_mul (Num 2) a)"
  by (cases a) (simp_all add: fl_mul_def mk_def signed_zero_def)

lemma roots_special:
  assumes "fl_lt (spec_discriminant a b c) (Num 0) \<or> is_zero a"
  shows "is_special (spec_root1 a b c) \<and> is_special (spec_root2 a b c)"
  using assms
proof
  assume "fl_lt (spec_discriminant a b c) (Num 0)"
  then have "is_special (fl_sqrt (spec_discriminant a b c))" by (rule special_sqrt_negative)
  then show ?thesis
    by (simp add: spec_root1_def spec_root2_def special_div_num special_sub special_add)
next
  assume "is_zero a"
  then show ?thesis
    by (simp add: spec_root1_def spec_root2_def special_div_zero zero_twice)
qed

lemma time_special:
  "fl_lt (spec_discriminant a b c) (Num 0) \<or> is_zero a \<Longrightarrow> is_special (spec_time a b c)"
  using roots_special [of a b c] by (simp add: spec_time_def)

lemma eval_special: "is_special t \<Longrightarrow> is_special (spec_eval t a b c)"
  by (simp add: spec_eval_def special_add special_mul)

lemma distance_Scalar:
  "get_distance_at_contact_ground (SecondOrderEq (Scalar a) (Scalar b) (Scalar c)) =
     Inl ScalarIndexed"
  by (simp add: get_distance_at_contact_ground_def time_Scalar ebind_def)

text \<open>
  Claim C5, as stated, fails: for the three scalars that \<open>get_eq_z()\<close> gives for an
  object at height 1 under the gravity \<open>(0, 0, 0)\<close>, the leading coefficient is zero, and
  \<open>get_time_contact_ground()\<close> and \<open>get_distance_at_contact_ground()\<close> raise.
\<close>

theorem time_raises_on_invalid_scalars:
  "get_eq_z (Object (PyList [Num 0, Num 0, Num 1]) (PyList [Num 0, Num 0, Num 0])
      (PyList [Num 0, Num 0, Num 0]) (NdArray [Num 0, Num 0, Num 0])) =
     Inr (Num 0, Num 0, Num 1) \<and>
   is_zero (Num 0) \<and>
   get_time_contact_ground
     (SecondOrderEq (Scalar (Num 0)) (Scalar (Num 0)) (Scalar (Num 1))) = Inl ScalarIndexed \<and>
   get_distance_at_contact_ground
     (SecondOrderEq (Scalar (Num 0)) (Scalar (Num 0)) (Scalar (Num 1))) = Inl ScalarIndexed"
  by (simp add: time_Scalar distance_Scalar get_eq_z_Arr) (simp add: fl_eval)

text \<open>
  Claim C5, amended. On three scalars \<open>get_time_contact_ground()\<close> and
  \<open>get_distance_at_contact_ground()\<close> raise; on the three NumPy scalars that
  \<open>get_eq_z()\<close> returns, \<open>discriminant()\<close> and \<open>roots()\<close> return, and both roots are
  not-a-number or infinite when the discriminant is negative or \<open>a\<close> is a zero. On three
  coefficient arrays of one length, at least 3, whatever their components, the four
  methods return; on every axis where the discriminant is negative or \<open>a\<close> is a zero,
  both roots are not-a-number or infinite; and when that axis is the vertical one, the
  contact time and every component of the value at that time are not-a-number or
  infinite.
\<close>

theorem invalid_vectors_give_special_values:
  "get_time_contact_ground (SecondOrderEq (Scalar a) (Scalar b) (Scalar c)) = Inl ScalarIndexed \<and>
   get_distance_at_contact_ground (SecondOrderEq (Scalar a) (Scalar b) (Scalar c)) =
     Inl ScalarIndexed \<and>
   (get_eq_z obj = Inr (a, b, c) \<longrightarrow>
      (\<exists>d r1 r2. discriminant (SecondOrderEq (Scalar a) (Scalar b) (Scalar c)) = Inr (Scalar d) \<and>
         roots (SecondOrderEq (Scalar a) (Scalar b) (Scalar c)) = Inr (Scalar r1, Scalar r2) \<and>
         (fl_lt d (Num 0) \<or> is_zero a \<longrightarrow> is_special r1 \<and> is_special r2))) \<and>
   (length bs = length as \<and> length cs = length as \<and> 2 < length as \<longrightarrow>
      (\<exists>d r1 r2 t p.
         discriminant (SecondOrderEq (Arr as) (Arr bs) (Arr cs)) = Inr (Arr d) \<and>
         roots (SecondOrderEq (Arr as) (Arr bs) (Arr cs)) = Inr (Arr r1, Arr r2) \<and>
         get_time_contact_ground (SecondOrderEq (Arr as) (Arr bs) (Arr cs)) = Inr t \<and>
         get_distance_at_contact_ground (SecondOrderEq (Arr as) (Arr bs) (Arr cs)) = Inr (Arr p) \<and>
         length d = length as \<and> length r1 = length as \<and> length r2 = length as \<and>
         length p = length as \<and>
         (\<forall>i<length as. fl_lt (d ! i) (Num 0) \<or> is_zero (as ! i) \<longrightarrow>
            is_special (r1 ! i) \<and> is_special (r2 ! i)) \<and>
         (fl_lt (d ! 2) (Num 0) \<or> is_zero (as ! 2) \<longrightarrow>
            is_special t \<and> (\<forall>i<length as. is_special (p ! i)))))"
proof (intro conjI impI; (elim conjE)?)
  show "get_time_contact_ground (SecondOrderEq (Scalar a) (Scalar b) (Scalar c)) =
      Inl ScalarIndexed"
    by (rule time_Scalar)
  show "get_distance_at_contact_ground (SecondOrderEq (Scalar a) (Scalar b) (Scalar c)) =
      Inl ScalarIndexed"
    by (rule distance_Scalar)
  show "\<exists>d r1 r2. discriminant (SecondOrderEq (Scalar a) (Scalar b) (Scalar c)) = Inr (Scalar d) \<and>
      roots (SecondOrderEq (Scalar a) (Scalar b) (Scalar c)) = Inr (Scalar r1, Scalar r2) \<and>
      (fl_lt d (Num 0) \<or> is_zero a \<longrightarrow> is_special r1 \<and> is_special r2)"
    using roots_special [of a b c] by (simp add: discriminant_Scalar roots_Scalar)
next
  assume L: "length bs = length as" "length cs = length as" "2 < length as"
  let ?e = "SecondOrderEq (Arr as) (Arr bs) (Arr cs)"
  let ?t = "spec_time (as ! 2) (bs ! 2) (cs ! 2)"
  let ?d = "map3 spec_discriminant as bs cs"
  let ?r1 = "map3 spec_root1 as bs cs" and ?r2 = "map3 spec_root2 as bs cs"
  let ?p = "map3 (spec_eval ?t) as bs cs"
  have "discriminant ?e = Inr (Arr ?d)" using L by (simp add: discriminant_Arr)
  moreover have "roots ?e = Inr (Arr ?r1, Arr ?r2)" using L by (simp add: roots_Arr)
  moreover have "get_time_contact_ground ?e = Inr ?t" using L by (rule time_Arr)
  moreover have "get_distance_at_contact_ground ?e = Inr (Arr ?p)" using L by (rule distance_Arr)
  moreover have "length ?d = length as" "length ?r1 = length as" "length ?r2 = length as"
    "length ?p = length as"
    using L by simp_all
  moreover have "\<forall>i<length as. fl_lt (?d ! i) (Num 0) \<or> is_zero (as ! i) \<longrightarrow>
      is_special (?r1 ! i) \<and> is_special (?r2 ! i)"
    using L by (simp add: roots_special)
  moreover have "fl_lt (?d ! 2) (Num 0) \<or> is_zero (as ! 2) \<longrightarrow>
      is_special ?t \<and> (\<forall>i<length as. is_special (?p ! i))"
    using L by (simp add: time_special eval_special)
  ultimately show "\<exists>d r1 r2 t p.
         discriminant ?e = Inr (Arr d) \<and> roots ?e = Inr (Arr r1, Arr r2) \<and>
         get_time_contact_ground ?e = Inr t \<and>
         get_distance_at_contact_ground ?e = Inr (Arr p) \<and>
         length d = length as \<and> length r1 = length as \<and> length r2 = length as \<and>
         length p = length as \<and>
         (\<forall>i<length as. fl_lt (d ! i) (Num 0) \<or> is_zero (as ! i) \<longrightarrow>
            is_special (r1 ! i) \<and> is_special (r2 ! i)) \<and>
         (fl_lt (d ! 2) (Num 0) \<or> is_zero (as ! 2) \<longrightarrow>
            is_special t \<and> (\<forall>i<length as. is_special (p ! i)))"
    by blast
qed

theorem invalid_vectors_give_special_values_witness:
  "length [Num 0, Num 0, Num 0] = length [Num 0, Num 0, Num 1] \<and>
   length [Num 0, Num 0, Num 1] = length [Num 0, Num 0, Num 1] \<and>
   2 < length [Num 0, Num 0, Num 1] \<and>
   discriminant (SecondOrderEq (Arr [Num 0, Num 0, Num 1]) (Arr [Num 0, Num 0, Num 0])
      (Arr [Num 0, Num 0, Num 1])) = Inr (Arr [Num 0, Num 0, Num (- 4)]) \<and>
   fl_lt ([Num 0, Num 0, Num (- 4)] ! 2) (Num 0) \<and> is_zero ([Num 0, Num 0, Num 1] ! 0) \<and>
   (\<exists>r1 r2 t p.
      roots (SecondOrderEq (Arr [Num 0, Num 0, Num 1]) (Arr [Num 0, Num 0, Num 0])
        (Arr [Num 0, Num 0, Num 1])) = Inr (Arr r1, Arr r2) \<and>
      get_time_contact_ground (SecondOrderEq (Arr [Num 0, Num 0, Num 1])
        (Arr [Num 0, Num 0, Num 0]) (Arr [Num 0, Num 0, Num 1])) = Inr t \<and>
      get_distance_at_contact_ground (SecondOrderEq (Arr [Num 0, Num 0, Num 1])
        (Arr [Num 0, Num 0, Num 0]) (Arr [Num 0, Num 0, Num 1])) = Inr (Arr p) \<and>
      is_special (r1 ! 0) \<and> is_special (r2 ! 0) \<and> is_special (r1 ! 2) \<and> is_special (r2 ! 2) \<and>
      is_special t \<and> is_special (p ! 0) \<and> is_special (p ! 1) \<and> is_special (p ! 2)) \<and>
   get_eq_z (Object (PyList [Num 0, Num 0, Num 1]) (PyList [Num 0, Num 0, Num 0])
      (PyList [Num 0, Num 0, Num 0]) (NdArray [Num 0, Num 0, Num 0])) =
     Inr (Num 0, Num 0, Num 1) \<and>
   (\<exists>r1 r2. roots (SecondOrderEq (Scalar (Num 0)) (Scalar (Num 0)) (Scalar (Num 1))) =
      Inr (Scalar r1, Scalar r2) \<and> is_special r1 \<and> is_special r2)"
proof -
  let ?as = "[Num 0, Num 0, Num 1]" and ?bs = "[Num 0, Num 0, Num 0]"
  let ?e = "SecondOrderEq (Arr ?as) (Arr ?bs) (Arr ?as)"
  let ?o = "Object (PyList [Num 0, Num 0, Num 1]) (PyList [Num 0, Num 0, Num 0])
      (PyList [Num 0, Num 0, Num 0]) (NdArray [Num 0, Num 0, Num 0])"
  note inst = invalid_vectors_give_special_values [of "Num 0" "Num 0" "Num 1" ?o ?bs ?as ?as]
  have D: "discriminant ?e = Inr (Arr [Num 0, Num 0, Num (- 4)])"
    by (simp add: discriminant_Arr fl_eval)
  have N: "fl_lt ([Num 0, Num 0, Num (- 4)] ! 2) (Num 0)" by (simp add: fl_lt_def)
  have L: "length ?bs = length ?as \<and> length ?as = length ?as \<and> 2 < length ?as" by simp
  have Z: "get_eq_z ?o = Inr (Num 0, Num 0, Num 1)"
    by (simp add: get_eq_z_Arr) (simp add: fl_eval)
  from inst [THEN conjunct2, THEN conjunct2, THEN conjunct1, THEN mp, OF Z]
  have S: "\<exists>r1 r2. roots (SecondOrderEq (Scalar (Num 0)) (Scalar (Num 0)) (Scalar (Num 1))) =
      Inr (Scalar r1, Scalar r2) \<and> is_special r1 \<and> is_special r2"
    by auto
  from inst [THEN conjunct2, THEN conjunct2, THEN conjunct2, THEN mp, OF L]
  obtain d r1 r2 t p where d: "discriminant ?e = Inr (Arr d)"
    and R: "roots ?e = Inr (Arr r1, Arr r2)" "get_time_contact_ground ?e = Inr t"
      "get_distance_at_contact_ground ?e = Inr (Arr p)"
    and A: "\<forall>i<length ?as. fl_lt (d ! i) (Num 0) \<or> is_zero (?as ! i) \<longrightarrow>
        is_special (r1 ! i) \<and> is_special (r2 ! i)"
    and Y: "fl_lt (d ! 2) (Num 0) \<or> is_zero (?as ! 2) \<longrightarrow>
        is_special t \<and> (\<forall>i<length ?as. is_special (p ! i))"
    by blast
  from d D have dd: "d = [Num 0, Num 0, Num (- 4)]" by simp
  have S0: "is_special (r1 ! 0) \<and> is_special (r2 ! 0)" using A [rule_format, of 0] by simp
  have S2: "is_special (r1 ! 2) \<and> is_special (r2 ! 2)"
    using A [rule_format, of 2] N by (simp add: dd)
  have "is_special t \<and> (\<forall>i<length ?as. is_special (p ! i))"
    using Y N unfolding dd by blast
  then have St: "is_special t" and Sp: "\<And>i. i < 3 \<Longrightarrow> is_special (p ! i)" by simp_all
  have P: "is_special (p ! 0) \<and> is_special (p ! 1) \<and> is_special (p ! 2)"
    using Sp [of 0] Sp [of 1] Sp [of 2] by simp
  have "\<exists>r1 r2 t p. roots ?e = Inr (Arr r1, Arr r2) \<and> get_time_contact_ground ?e = Inr t \<and>
      get_distance_at_contact_ground ?e = Inr (Arr p) \<and>
      is_special (r1 ! 0) \<and> is_special (r2 ! 0) \<and> is_special (r1 ! 2) \<and> is_special (r2 ! 2) \<and>
      is_special t \<and> is_special (p ! 0) \<and> is_special (p ! 1) \<and> is_special (p ! 2)"
    using R S0 S2 St P by blast
  moreover have "is_zero (?as ! 0)" by simp
  ultimately show ?thesis using D N L Z S by (intro conjI) simp_all
qed

end
